theory Spec2Isabelle
  imports Main "HOL-Library.AList"
begin

section \<open>Data model\<close>

text \<open>
  The token and output types are declared in files of the repository that are not part of
  the sources at hand; their fields are the ones the parser reads and writes
  (\<open>p.token.Type\<close>, \<open>p.token.Literal\<close>, \<open>output.Name\<close>, ...).  The column of a token is the
  field \<open>Position\<close> in the source; it is called \<open>Column\<close> here, since \<open>Position\<close> is also a
  field of \<open>Output\<close>.
\<close>

datatype TokenType =
    TokenTypeEOF
  | TokenTypeName
  | TokenTypeIntValue
  | TokenTypeFloatValue
  | TokenTypePunctuator
  | TokenTypeWhiteSpace
  | TokenTypeLineTerminator

record Token =
  Type :: TokenType
  Literal :: string
  Line :: nat
  Column :: nat

datatype Rotation = RotationNormal | RotationLeft | RotationInverted | RotationRight

datatype Reflection = ReflectionNone | ReflectionXAxis | ReflectionYAxis

record Resolution =
  Width :: nat
  Height :: nat

record Position =
  OffsetX :: int
  OffsetY :: int

text \<open>\<open>Dimensions\<close> has the fields \<open>Width\<close> and \<open>Height\<close> in the source (millimetres).\<close>

record Dimensions =
  WidthMM :: nat
  HeightMM :: nat

text \<open>
  The refresh rate is a \<open>float64\<close> in the source.  The model keeps the exact decimal value of
  the literal as a pair: the digits with the point removed, read as a number, and the number
  of digits after the point (\<open>60.00\<close> is \<open>(6000, 2)\<close>).
\<close>

record Rate =
  Rate :: "nat \<times> nat"
  IsCurrent :: bool
  IsPreferred :: bool

record OutputMode =
  ModeResolution :: Resolution
  Rates :: "Rate list"

text \<open>
  \<open>Properties\<close> is a Go \<open>map[string]string\<close>.  It is kept as an association list with unique
  keys: \<open>m[k] = v\<close> is \<open>AList.update k v m\<close> and a lookup is \<open>map_of m k\<close>.
\<close>

record Output =
  Name :: string
  IsConnected :: bool
  IsPrimary :: bool
  IsEnabled :: bool
  Resolution :: Resolution
  Position :: Position
  Rotation :: Rotation
  Reflection :: Reflection
  Dimensions :: Dimensions
  Properties :: "(string \<times> string) list"
  Modes :: "OutputMode list"

text \<open>
  Errors are values.  The source builds them with \<open>fmt.Errorf\<close>; each constructor keeps the
  arguments of one format string.
\<close>

datatype error =
    LexError string
  | UnexpectedToken Token TokenType
  | UnexpectedLiteral string TokenType nat nat
  | Unexpected Token TokenType "string list"
  | ExpectedResolution string
  | ErrSyntax string
  | ErrRange string
  | ErrorParsing string error

section \<open>Library functions used by the parser\<close>

definition digit :: "char \<Rightarrow> bool" where
  "digit c = (c \<in> set ''0123456789'')"

definition digit_val :: "char \<Rightarrow> nat" where
  "digit_val c = of_char c - 48"

definition dec :: "string \<Rightarrow> nat" where
  "dec s = foldl (\<lambda>n c. 10 * n + digit_val c) 0 s"

text \<open>
  \<open>strconv.ParseUint(s, 10, 64)\<close>: a non-empty string of decimal digits below \<open>2^64\<close>.
\<close>

definition ParseUint :: "string \<Rightarrow> error + nat" where
  "ParseUint s =
     (if s = [] \<or> \<not> list_all digit s then Inl (ErrSyntax s)
      else if dec s \<ge> 2 ^ 64 then Inl (ErrRange s)
      else Inr (dec s))"

text \<open>
  \<open>strconv.ParseInt(s, 10, 64)\<close>: an optional sign, then decimal digits; the value lies
  in \<open>-2^63 .. 2^63 - 1\<close>.
\<close>

definition ParseInt :: "string \<Rightarrow> error + int" where
  "ParseInt s =
     (let (neg, ds) = (case s of
                         [] \<Rightarrow> (False, [])
                       | c # r \<Rightarrow> if c = CHR ''+'' then (False, r)
                                  else if c = CHR ''-'' then (True, r)
                                  else (False, s))
      in if ds = [] \<or> \<not> list_all digit ds then Inl (ErrSyntax s)
         else if \<not> neg \<and> dec ds \<ge> 2 ^ 63 then Inl (ErrRange s)
         else if neg \<and> dec ds > 2 ^ 63 then Inl (ErrRange s)
         else Inr (if neg then - int (dec ds) else int (dec ds)))"

text \<open>
  \<open>strconv.ParseFloat(s, 64)\<close> on the literals of the shape \<open>digits\<close> or \<open>digits.digits\<close>;
  every other literal is reported as a syntax error here (Go also reads exponents, signs,
  hexadecimal floats, \<open>inf\<close> and \<open>nan\<close>).
\<close>

definition ParseFloat :: "string \<Rightarrow> error + nat \<times> nat" where
  "ParseFloat s =
     (let a = takeWhile digit s; r = dropWhile digit s
      in if a = [] then Inl (ErrSyntax s)
         else case r of
                [] \<Rightarrow> Inr (dec a, 0)
              | c # b \<Rightarrow> if c = CHR ''.'' \<and> b \<noteq> [] \<and> list_all digit b
                         then Inr (dec (a @ b), length b) else Inl (ErrSyntax s))"

text \<open>
  \<open>strings.TrimSpace\<close> removes the leading and the trailing white space, as Unicode
  defines it (\<open>unicode.IsSpace\<close>): tab, line feed, vertical tab, form feed, carriage return,
  space, U+0085, U+00A0, U+1680, U+2000 to U+200A, U+2028, U+2029, U+202F, U+205F and U+3000.
  A Go string is a sequence of bytes, read as UTF-8, so each of these runes stands here with
  its encoding.  Bytes that are no valid encoding decode to U+FFFD, which is no white space.
\<close>

definition spaceRunes :: "string list" where
  "spaceRunes =
     [[CHR 0x09], [CHR 0x0A], [CHR 0x0B], [CHR 0x0C], [CHR 0x0D], [CHR 0x20],
      [CHR 0xC2, CHR 0x85], [CHR 0xC2, CHR 0xA0],
      [CHR 0xE1, CHR 0x9A, CHR 0x80],
      [CHR 0xE2, CHR 0x80, CHR 0x80], [CHR 0xE2, CHR 0x80, CHR 0x81],
      [CHR 0xE2, CHR 0x80, CHR 0x82], [CHR 0xE2, CHR 0x80, CHR 0x83],
      [CHR 0xE2, CHR 0x80, CHR 0x84], [CHR 0xE2, CHR 0x80, CHR 0x85],
      [CHR 0xE2, CHR 0x80, CHR 0x86], [CHR 0xE2, CHR 0x80, CHR 0x87],
      [CHR 0xE2, CHR 0x80, CHR 0x88], [CHR 0xE2, CHR 0x80, CHR 0x89],
      [CHR 0xE2, CHR 0x80, CHR 0x8A],
      [CHR 0xE2, CHR 0x80, CHR 0xA8], [CHR 0xE2, CHR 0x80, CHR 0xA9],
      [CHR 0xE2, CHR 0x80, CHR 0xAF], [CHR 0xE2, CHR 0x81, CHR 0x9F],
      [CHR 0xE3, CHR 0x80, CHR 0x80]]"

text \<open>
  \<open>trimLeft rs s\<close> removes from the front of \<open>s\<close> the byte sequences of \<open>rs\<close>, as long as
  there is one.  At the end of a string Go decodes the last rune backwards; the encodings
  are then met in reverse.
\<close>

function trimLeft :: "string list \<Rightarrow> string \<Rightarrow> string" where
  "trimLeft rs s =
     (case find (\<lambda>r. r \<noteq> [] \<and> take (length r) s = r) rs of
        None \<Rightarrow> s
      | Some r \<Rightarrow> trimLeft rs (drop (length r) s))"
  by pat_completeness auto
termination
proof (relation "measure (\<lambda>(rs, s). length s)")
  show "wf (measure (\<lambda>(rs, s). length s))" by simp
next
  fix rs :: "string list" and s r :: string
  assume "find (\<lambda>r. r \<noteq> [] \<and> take (length r) s = r) rs = Some r"
  then have "r \<noteq> [] \<and> take (length r) s = r"
    by (auto simp: find_Some_iff)
  then have "0 < length r \<and> length r \<le> length s"
    by (metis length_greater_0_conv nat_le_linear take_all)
  then show "((rs, drop (length r) s), (rs, s)) \<in> measure (\<lambda>(rs, s). length s)"
    by (cases r) auto
qed

declare trimLeft.simps [simp del]

definition TrimSpace :: "string \<Rightarrow> string" where
  "TrimSpace s = rev (trimLeft (map rev spaceRunes) (rev (trimLeft spaceRunes s)))"

text \<open>
  The regular expressions.  \<open>FindStringSubmatch\<close> gives the groups of the match, or nothing.
  \<open>dimensionPattern\<close> is \<open>^([0-9]+)mm$\<close> in both files.
\<close>

definition dimensionPattern :: "string \<Rightarrow> string option" where
  "dimensionPattern s =
     (let a = takeWhile digit s; r = dropWhile digit s
      in if a \<noteq> [] \<and> r = ''mm'' then Some a else None)"

text \<open>\<open>src/xrandr/parser.go\<close>: \<open>^([0-9]+)x([0-9]+)$\<close>.\<close>

definition resolutionPattern :: "string \<Rightarrow> (string \<times> string) option" where
  "resolutionPattern s =
     (let a = takeWhile digit s; r = dropWhile digit s
      in if a = [] then None
         else case r of
                [] \<Rightarrow> None
              | c # r' \<Rightarrow>
                  if c \<noteq> CHR ''x'' then None
                  else let b = takeWhile digit r'; t = dropWhile digit r'
                       in if b \<noteq> [] \<and> t = [] then Some (a, b) else None)"

text \<open>\<open>src/unnamed/part_000\<close>: \<open>^([0-9]+)x([0-9]+)i?$\<close>.\<close>

definition resolutionPattern_p0 :: "string \<Rightarrow> (string \<times> string) option" where
  "resolutionPattern_p0 s =
     (let a = takeWhile digit s; r = dropWhile digit s
      in if a = [] then None
         else case r of
                [] \<Rightarrow> None
              | c # r' \<Rightarrow>
                  if c \<noteq> CHR ''x'' then None
                  else let b = takeWhile digit r'; t = dropWhile digit r'
                       in if b \<noteq> [] \<and> (t = [] \<or> t = ''i'') then Some (a, b) else None)"

section \<open>The lexer\<close>

text \<open>
  Modelled from the spec: the lexer (\<open>NewLexer\<close>, \<open>Lexer.Scan\<close>) is not among the sources.
  The spec gives its contract: \<open>scan() \<rightarrow> Token\<close>, called repeatedly, with no memory besides
  its read cursor, and at the end of the buffer \<open>EndOfInput\<close>, returned repeatedly on
  subsequent calls.  A lexer over a buffer is therefore the sequence of results that its
  successive \<open>Scan\<close> calls deliver; \<open>Scan\<close> hands out the next one.  In
  \<open>src/xrandr/parser.go\<close> a call returns a token and an error, in \<open>src/unnamed/part_000\<close> a
  token only.
\<close>

type_synonym Lexer = "(Token \<times> error option) list"

definition eofToken :: Token where
  "eofToken = \<lparr>Type = TokenTypeEOF, Literal = [], Line = 0, Column = 0\<rparr>"

definition Scan :: "Lexer \<Rightarrow> (Token \<times> error option) \<times> Lexer" where
  "Scan lx = (case lx of [] \<Rightarrow> ((eofToken, None), []) | r # rest \<Rightarrow> (r, rest))"

section \<open>The parser of \<open>src/xrandr/parser.go\<close>\<close>

record Parser =
  lexer :: Lexer
  token :: Token
  skipWS :: bool

definition NewParser :: Parser where
  "NewParser = \<lparr>lexer = [], token = eofToken, skipWS = True\<rparr>"

subsection \<open>Parser utilities\<close>

text \<open>
  \<open>scan\<close> reads the next token and, while whitespace is skipped and the token is
  whitespace, reads again.  The recursion ends: the lexer's sequence is finite and the
  end-of-input token is not whitespace.
\<close>

function scan :: "Parser \<Rightarrow> Parser \<times> error option" where
  "scan p =
     (case Scan (lexer p) of
        ((tok, err), lx) \<Rightarrow>
          (let p' = p\<lparr>token := tok, lexer := lx\<rparr>
           in if err \<noteq> None then (p', err)
              else if skipWS p' \<and> Type (token p') = TokenTypeWhiteSpace
                   then scan p'
                   else (p', None)))"
  by pat_completeness auto
termination
  by (relation "measure (\<lambda>p. length (lexer p))") (auto simp: Scan_def eofToken_def split: list.splits)

declare scan.simps [simp del]

definition match :: "TokenType \<Rightarrow> Parser \<Rightarrow> Parser \<times> bool \<times> error option" where
  "match t p =
     (if Type (token p) = t
      then (case scan p of (p', err) \<Rightarrow> (p', True, err))
      else (p, False, None))"

definition expect :: "TokenType \<Rightarrow> Parser \<Rightarrow> Parser \<times> Token \<times> error option" where
  "expect t p =
     (let tok = token p
      in case match t p of
           (p', m, err) \<Rightarrow>
             if err \<noteq> None then (p', tok, err)
             else if m then (p', tok, None)
             else (p', tok, Some (UnexpectedToken (token p') t)))"

definition skip :: "TokenType \<Rightarrow> Parser \<Rightarrow> Parser \<times> error option" where
  "skip t p =
     (let tok = token p
      in case match t p of
           (p', m, err) \<Rightarrow>
             if err \<noteq> None then (p', err)
             else if m then (p', None)
             else (p', Some (UnexpectedToken tok t)))"

definition skipWithLiteral :: "TokenType \<Rightarrow> string \<Rightarrow> Parser \<Rightarrow> Parser \<times> error option" where
  "skipWithLiteral t l p =
     (let tok = token p
      in case skip t p of
           (p', err) \<Rightarrow>
             if err \<noteq> None then (p', err)
             else if Literal tok \<noteq> l
                  then (p', Some (UnexpectedLiteral l t (Line tok) (Column tok)))
                  else (p', None))"

text \<open>
  \<open>p.all(e1, e2, ...)\<close>: Go evaluates the arguments from left to right before the call, so
  every step runs, also after a failure; \<open>all\<close> then returns the first error.
\<close>

fun all_go :: "(Parser \<Rightarrow> Parser \<times> error option) list \<Rightarrow> Parser \<Rightarrow> Parser \<times> error option" where
  "all_go [] p = (p, None)"
| "all_go (f # fs) p =
     (case f p of
        (p1, e1) \<Rightarrow>
          (case all_go fs p1 of
             (p2, e2) \<Rightarrow> (p2, if e1 \<noteq> None then e1 else e2)))"

definition parseResolution :: "string \<Rightarrow> bool \<times> Resolution" where
  "parseResolution literal =
     (let res = \<lparr>Width = 0, Height = 0\<rparr>
      in case resolutionPattern literal of
           None \<Rightarrow> (False, res)
         | Some (m1, m2) \<Rightarrow>
             (case ParseUint m1 of
                Inl e \<Rightarrow> (False, res)
              | Inr xres \<Rightarrow>
                  (case ParseUint m2 of
                     Inl e \<Rightarrow> (False, res)
                   | Inr yres \<Rightarrow> (True, \<lparr>Width = xres, Height = yres\<rparr>))))"

definition parseScreen :: "Parser \<Rightarrow> Parser \<times> error option" where
  "parseScreen p =
     all_go [
       skipWithLiteral TokenTypeName ''Screen'',
       skip TokenTypeIntValue,
       skip TokenTypePunctuator,
       skipWithLiteral TokenTypeName ''minimum'',
       skip TokenTypeIntValue,
       skipWithLiteral TokenTypeName ''x'',
       skip TokenTypeIntValue,
       skip TokenTypePunctuator,
       skipWithLiteral TokenTypeName ''current'',
       skip TokenTypeIntValue,
       skipWithLiteral TokenTypeName ''x'',
       skip TokenTypeIntValue,
       skip TokenTypePunctuator,
       skipWithLiteral TokenTypeName ''maximum'',
       skip TokenTypeIntValue,
       skipWithLiteral TokenTypeName ''x'',
       skip TokenTypeIntValue,
       skip TokenTypeLineTerminator] p"

subsection \<open>The productions of an output\<close>

definition parseOutputName :: "Parser \<Rightarrow> Output \<Rightarrow> Parser \<times> Output \<times> error option" where
  "parseOutputName p0 output =
     (let p = p0\<lparr>skipWS := True\<rparr>
      in case expect TokenTypeName p of
           (p1, tok, err) \<Rightarrow>
             if err \<noteq> None then (p1, output, err)
             else (p1, output\<lparr>Name := Literal tok\<rparr>, None))"

text \<open>
  \<open>parseOutputStatus\<close> scans first: the token that \<open>parseOutputName\<close> left as the current
  one is dropped before the literal is compared with \<open>connected\<close>.
\<close>

definition parseOutputStatus :: "Parser \<Rightarrow> Output \<Rightarrow> Parser \<times> Output \<times> error option" where
  "parseOutputStatus p0 output =
     (let p = p0\<lparr>skipWS := True\<rparr>
      in case scan p of
           (p1, err1) \<Rightarrow>
             if err1 \<noteq> None then (p1, output, err1)
             else
               (case (if Literal (token p1) = ''connected''
                      then (case scan p1 of (p2, err2) \<Rightarrow> (p2, output\<lparr>IsConnected := True\<rparr>, err2))
                      else (p1, output, None)) of
                  (p2, output2, err2) \<Rightarrow>
                    if err2 \<noteq> None then (p2, output2, err2)
                    else if Type (token p2) = TokenTypeName \<and> Literal (token p2) = ''primary''
                         then (case scan p2 of (p3, err3) \<Rightarrow> (p3, output2\<lparr>IsPrimary := True\<rparr>, err3))
                         else (p2, output2, None)))"

definition parseResolutionAndPosition :: "Parser \<Rightarrow> Output \<Rightarrow> Parser \<times> Output \<times> error option" where
  "parseResolutionAndPosition p0 output =
     (let p = p0\<lparr>skipWS := True\<rparr>
      in if Type (token p) \<noteq> TokenTypeName then (p, output, None)
         else
           (case parseResolution (Literal (token p)) of
              (isRes, res) \<Rightarrow>
                if \<not> isRes then (p, output, None)
                else
                  (let output1 = output\<lparr>IsEnabled := True, Resolution := res\<rparr>
                   in case scan p of
                        (p1, e1) \<Rightarrow>
                          if e1 \<noteq> None then (p1, output1, e1)
                          else
                   (case skipWithLiteral TokenTypePunctuator ''+'' p1 of
                        (p2, e2) \<Rightarrow>
                          if e2 \<noteq> None then (p2, output1, e2)
                          else
                   (case expect TokenTypeIntValue p2 of
                        (p3, tokX, e3) \<Rightarrow>
                          if e3 \<noteq> None then (p3, output1, e3)
                          else
                   (case ParseInt (Literal tokX) of
                        Inl e4 \<Rightarrow> (p3, output1, Some e4)
                      | Inr offsetX \<Rightarrow>
                   (case skipWithLiteral TokenTypePunctuator ''+'' p3 of
                        (p5, e5) \<Rightarrow>
                          if e5 \<noteq> None then (p5, output1, e5)
                          else
                   (case expect TokenTypeIntValue p5 of
                        (p6, tokY, e6) \<Rightarrow>
                          if e6 \<noteq> None then (p6, output1, e6)
                          else
                   (case ParseInt (Literal tokY) of
                        Inl e7 \<Rightarrow> (p6, output1, Some e7)
                      | Inr offsetY \<Rightarrow>
                          (p6,
                           output1\<lparr>Position := \<lparr>OffsetX = offsetX, OffsetY = offsetY\<rparr>\<rparr>,
                           None))))))))))"

definition rotationOf :: "string \<Rightarrow> Rotation option" where
  "rotationOf l =
     (if l = ''normal'' then Some RotationNormal
      else if l = ''left'' then Some RotationLeft
      else if l = ''inverted'' then Some RotationInverted
      else if l = ''right'' then Some RotationRight
      else None)"

definition parseOutputRotationAndReflection ::
  "Parser \<Rightarrow> Output \<Rightarrow> Parser \<times> Output \<times> error option" where
  "parseOutputRotationAndReflection p0 output =
     (let p = p0\<lparr>skipWS := True\<rparr>
      in case (if Type (token p) = TokenTypeName
               then (case rotationOf (Literal (token p)) of
                       None \<Rightarrow> (p, output, None)
                     | Some r \<Rightarrow> (case scan p of (p1, e1) \<Rightarrow> (p1, output\<lparr>Rotation := r\<rparr>, e1)))
               else (p, output, None)) of
           (p1, output1, e1) \<Rightarrow>
             if e1 \<noteq> None then (p1, output1, e1)
             else if Type (token p1) = TokenTypeName
             then
               (let foundX = (Literal (token p1) = ''x'');
                    foundY = (Literal (token p1) = ''y'')
                in if foundX \<or> foundY
                   then
                     (case scan p1 of
                        (p2, e2) \<Rightarrow>
                          if e2 \<noteq> None then (p2, output1, e2)
                          else if Type (token p2) = TokenTypeName \<and> Literal (token p2) = ''axis''
                          then
                            (let outputX =
                                   (if foundX then output1\<lparr>Reflection := ReflectionXAxis\<rparr>
                                    else output1);
                                 outputY =
                                   (if foundY then outputX\<lparr>Reflection := ReflectionYAxis\<rparr>
                                    else outputX)
                             in case scan p2 of (p3, e3) \<Rightarrow> (p3, outputY, e3))
                          else (p2, output1, None))
                   else (p1, output1, None))
             else (p1, output1, None))"

definition parseOutputRotationAndReflectionKey :: "Parser \<Rightarrow> Parser \<times> error option" where
  "parseOutputRotationAndReflectionKey p0 =
     all_go [
       skipWithLiteral TokenTypePunctuator ''('',
       skipWithLiteral TokenTypeName ''normal'',
       skipWithLiteral TokenTypeName ''left'',
       skipWithLiteral TokenTypeName ''inverted'',
       skipWithLiteral TokenTypeName ''right'',
       skipWithLiteral TokenTypeName ''x'',
       skipWithLiteral TokenTypeName ''axis'',
       skipWithLiteral TokenTypeName ''y'',
       skipWithLiteral TokenTypeName ''axis'',
       skipWithLiteral TokenTypePunctuator '')''] (p0\<lparr>skipWS := True\<rparr>)"

text \<open>
  \<open>parseOutputDimension\<close> returns \<open>0, err\<close> when the literal does not match the pattern; \<open>err\<close>
  is \<open>nil\<close> at that point, so a literal that is not a dimension gives \<open>0\<close> and no error.
\<close>

definition parseOutputDimension :: "Parser \<Rightarrow> Parser \<times> nat \<times> error option" where
  "parseOutputDimension p0 =
     (let p = p0\<lparr>skipWS := True\<rparr>
      in case expect TokenTypeName p of
           (p1, tok, err) \<Rightarrow>
             if err \<noteq> None then (p1, 0, err)
             else
               (case dimensionPattern (Literal tok) of
                  None \<Rightarrow> (p1, 0, None)
                | Some m \<Rightarrow>
                    (case ParseUint m of
                       Inl e \<Rightarrow> (p1, 0, Some e)
                     | Inr dim \<Rightarrow> (p1, dim, None))))"

definition parseOutputDimensions :: "Parser \<Rightarrow> Output \<Rightarrow> Parser \<times> Output \<times> error option" where
  "parseOutputDimensions p0 output =
     (let p = p0\<lparr>skipWS := True\<rparr>
      in if Type (token p) \<noteq> TokenTypeName
         then (if Type (token p) = TokenTypeLineTerminator
               then (case scan p of (p1, e1) \<Rightarrow> (p1, output, e1))
               else (p, output, None))
         else
           (case parseOutputDimension p of
              (p1, xdim, e1) \<Rightarrow>
                if e1 \<noteq> None then (p1, output, e1)
                else
           (case skipWithLiteral TokenTypeName ''x'' p1 of
              (p2, e2) \<Rightarrow>
                if e2 \<noteq> None then (p2, output, e2)
                else
           (case parseOutputDimension p2 of
              (p3, ydim, e3) \<Rightarrow>
                if e3 \<noteq> None then (p3, output, e3)
                else (p3, output\<lparr>Dimensions := \<lparr>WidthMM = xdim, HeightMM = ydim\<rparr>\<rparr>, None)))))"

subsection \<open>Properties\<close>

text \<open>
  The loops of \<open>parseProperty\<close> end only at a colon or at a line terminator; at the end of
  the input the lexer keeps returning the end-of-input token and they run forever.  Each loop
  therefore takes fuel, and \<open>None\<close> stands for a run that has not returned within it.
\<close>

definition isTab :: "Token \<Rightarrow> bool" where
  "isTab t = (\<not> (Type t \<noteq> TokenTypeWhiteSpace \<or> Literal t \<noteq> [CHR 0x09]))"

text \<open>\<open>for { if p.token is ":" { break }; name += p.token.Literal; scan }\<close>\<close>

fun nameLoop :: "nat \<Rightarrow> Parser \<Rightarrow> string \<Rightarrow> (Parser \<times> string \<times> error option) option" where
  "nameLoop 0 p name = None"
| "nameLoop (Suc n) p name =
     (if Type (token p) = TokenTypePunctuator \<and> Literal (token p) = '':''
      then Some (p, name, None)
      else (case scan p of
              (p1, e1) \<Rightarrow>
                if e1 \<noteq> None then Some (p1, name @ Literal (token p), e1)
                else nameLoop n p1 (name @ Literal (token p))))"

text \<open>\<open>for { scan; if p.token is a line terminator { break }; value += p.token.Literal }\<close>\<close>

fun appendLine :: "nat \<Rightarrow> Parser \<Rightarrow> string \<Rightarrow> (Parser \<times> string \<times> error option) option" where
  "appendLine 0 p v = None"
| "appendLine (Suc n) p v =
     (case scan p of
        (p1, e1) \<Rightarrow>
          if e1 \<noteq> None then Some (p1, v, e1)
          else if Type (token p1) = TokenTypeLineTerminator then Some (p1, v, None)
          else appendLine n p1 (v @ Literal (token p1)))"

text \<open>\<open>for { scan; if p.token is a line terminator { break } }\<close>\<close>

fun skipLine :: "nat \<Rightarrow> Parser \<Rightarrow> (Parser \<times> error option) option" where
  "skipLine 0 p = None"
| "skipLine (Suc n) p =
     (case scan p of
        (p1, e1) \<Rightarrow>
          if e1 \<noteq> None then Some (p1, e1)
          else if Type (token p1) = TokenTypeLineTerminator then Some (p1, None)
          else skipLine n p1)"

text \<open>The continuation lines of a value that starts after a line terminator.\<close>

fun contAppend :: "nat \<Rightarrow> Parser \<Rightarrow> string \<Rightarrow> (Parser \<times> string \<times> error option) option" where
  "contAppend 0 p v = None"
| "contAppend (Suc n) p v =
     (case scan p of
        (p1, e1) \<Rightarrow>
          if e1 \<noteq> None then Some (p1, v, e1)
          else if \<not> isTab (token p1) then Some (p1, v, None)
          else
            (case scan p1 of
               (p2, e2) \<Rightarrow>
                 if e2 \<noteq> None then Some (p2, v, e2)
                 else if \<not> isTab (token p2) then Some (p2, v, None)
                 else
                   (case appendLine n p2 v of
                      None \<Rightarrow> None
                    | Some (p3, v3, e3) \<Rightarrow>
                        if e3 \<noteq> None then Some (p3, v3, e3)
                        else contAppend n p3 v3)))"

text \<open>The continuation lines of a value that starts on the line of the colon.\<close>

fun contSkip :: "nat \<Rightarrow> Parser \<Rightarrow> (Parser \<times> error option) option" where
  "contSkip 0 p = None"
| "contSkip (Suc n) p =
     (case scan p of
        (p1, e1) \<Rightarrow>
          if e1 \<noteq> None then Some (p1, e1)
          else if \<not> isTab (token p1) then Some (p1, None)
          else
            (case scan p1 of
               (p2, e2) \<Rightarrow>
                 if e2 \<noteq> None then Some (p2, e2)
                 else if \<not> isTab (token p2) then Some (p2, None)
                 else
                   (case skipLine n p2 of
                      None \<Rightarrow> None
                    | Some (p3, e3) \<Rightarrow>
                        if e3 \<noteq> None then Some (p3, e3)
                        else contSkip n p3)))"

text \<open>The part of \<open>parseProperty\<close> after the colon and the space: the value.\<close>

definition propertyValue :: "nat \<Rightarrow> Parser \<Rightarrow> (Parser \<times> string \<times> error option) option" where
  "propertyValue n p =
     (if Type (token p) = TokenTypeLineTerminator then contAppend n p []
      else if Type (token p) = TokenTypeName \<or> Type (token p) = TokenTypeIntValue
              \<or> Type (token p) = TokenTypeFloatValue
      then
        (case appendLine n p (Literal (token p)) of
           None \<Rightarrow> None
         | Some (p1, v1, e1) \<Rightarrow>
             if e1 \<noteq> None then Some (p1, v1, e1)
             else (case contSkip n p1 of
                     None \<Rightarrow> None
                   | Some (p2, e2) \<Rightarrow> Some (p2, v1, e2)))
      else Some (p, [], None))"

definition parseProperty :: "nat \<Rightarrow> Parser \<Rightarrow> Output \<Rightarrow> (Parser \<times> Output \<times> error option) option" where
  "parseProperty n p output =
     (case expect TokenTypeName p of
        (p1, tok, e1) \<Rightarrow>
          if e1 \<noteq> None then Some (p1, output, e1)
          else
            (case nameLoop n p1 (Literal tok) of
               None \<Rightarrow> None
             | Some (p2, name, e2) \<Rightarrow>
                 if e2 \<noteq> None then Some (p2, output, e2)
                 else
                   (case all_go [skipWithLiteral TokenTypePunctuator '':'',
                                 skipWithLiteral TokenTypeWhiteSpace '' ''] p2 of
                      (p3, e3) \<Rightarrow>
                        if e3 \<noteq> None then Some (p3, output, e3)
                        else
                          (case propertyValue n p3 of
                             None \<Rightarrow> None
                           | Some (p4, v, e4) \<Rightarrow>
                               if e4 \<noteq> None then Some (p4, output, e4)
                               else Some (p4,
                                          output\<lparr>Properties :=
                                            AList.update (TrimSpace name) (TrimSpace v)
                                              (Properties output)\<rparr>,
                                          None)))))"

fun parsePropertiesLoop :: "nat \<Rightarrow> Parser \<Rightarrow> Output \<Rightarrow> (Parser \<times> Output \<times> error option) option" where
  "parsePropertiesLoop 0 p output = None"
| "parsePropertiesLoop (Suc n) p output =
     (if Type (token p) \<noteq> TokenTypeWhiteSpace \<and> Literal (token p) \<noteq> [CHR 0x09]
      then Some (p, output, None)
      else (case scan p of
              (p1, e1) \<Rightarrow>
                if e1 \<noteq> None then Some (p1, output, e1)
                else (case parseProperty n p1 output of
                        None \<Rightarrow> None
                      | Some (p2, output2, e2) \<Rightarrow>
                          if e2 \<noteq> None then Some (p2, output2, e2)
                          else parsePropertiesLoop n p2 output2)))"

definition parseProperties :: "nat \<Rightarrow> Parser \<Rightarrow> Output \<Rightarrow> (Parser \<times> Output \<times> error option) option" where
  "parseProperties n p output = parsePropertiesLoop n (p\<lparr>skipWS := False\<rparr>) output"

subsection \<open>Modes\<close>

text \<open>The loop over the rates of one mode.\<close>

fun ratesLoop :: "nat \<Rightarrow> Parser \<Rightarrow> Rate list \<Rightarrow> (Parser \<times> Rate list \<times> error option) option" where
  "ratesLoop 0 p rates = None"
| "ratesLoop (Suc n) p rates =
     (if Type (token p) \<noteq> TokenTypeFloatValue then Some (p, rates, None)
      else
        (case ParseFloat (Literal (token p)) of
           Inl e \<Rightarrow> Some (p, rates, Some e)
         | Inr r \<Rightarrow>
             (case scan p of
                (p1, e1) \<Rightarrow>
                  if e1 \<noteq> None then Some (p1, rates, e1)
                  else
                    (case (if Type (token p1) = TokenTypePunctuator \<and> Literal (token p1) = ''*''
                           then (case scan p1 of (p2, e2) \<Rightarrow> (p2, True, e2))
                           else (p1, False, None)) of
                       (p2, cur, e2) \<Rightarrow>
                         if e2 \<noteq> None then Some (p2, rates, e2)
                         else
                           (case (if Type (token p2) = TokenTypePunctuator
                                     \<and> Literal (token p2) = ''+''
                                  then (case scan p2 of (p3, e3) \<Rightarrow> (p3, True, e3))
                                  else (p2, False, None)) of
                              (p3, pref, e3) \<Rightarrow>
                                if e3 \<noteq> None then Some (p3, rates, e3)
                                else ratesLoop n p3
                                       (rates @ [\<lparr>Rate = r, IsCurrent = cur,
                                                  IsPreferred = pref\<rparr>]))))))"

text \<open>
  The loop over the mode lines.  A name that is not a resolution is an error in this file.
\<close>

fun modesLoop :: "nat \<Rightarrow> Parser \<Rightarrow> Output \<Rightarrow> (Parser \<times> Output \<times> error option) option" where
  "modesLoop 0 p output = None"
| "modesLoop (Suc n) p output =
     (if Type (token p) \<noteq> TokenTypeName then Some (p, output, None)
      else
        (case parseResolution (Literal (token p)) of
           (isRes, res) \<Rightarrow>
             if \<not> isRes then Some (p, output, Some (ExpectedResolution (Literal (token p))))
             else
               (case scan p of
                  (p1, e1) \<Rightarrow>
                    if e1 \<noteq> None then Some (p1, output, e1)
                    else
                      (case ratesLoop n p1 [] of
                         None \<Rightarrow> None
                       | Some (p2, rates, e2) \<Rightarrow>
                           if e2 \<noteq> None then Some (p2, output, e2)
                           else modesLoop n p2
                                  (output\<lparr>Modes := Modes output
                                     @ [\<lparr>ModeResolution = res, Rates = rates\<rparr>]\<rparr>)))))"

definition parseModes :: "nat \<Rightarrow> Parser \<Rightarrow> Output \<Rightarrow> (Parser \<times> Output \<times> error option) option" where
  "parseModes n p0 output =
     (let p = p0\<lparr>skipWS := True\<rparr>
      in if Type (token p) \<noteq> TokenTypeWhiteSpace \<and> Literal (token p) \<noteq> '' ''
         then Some (p, output, None)
         else (case scan p of
                 (p1, e1) \<Rightarrow>
                   if e1 \<noteq> None then Some (p1, output, e1)
                   else modesLoop n p1 output))"

subsection \<open>An output, and the whole report\<close>

definition newOutput :: Output where
  "newOutput =
     \<lparr>Name = [], IsConnected = False, IsPrimary = False, IsEnabled = False,
      Resolution = \<lparr>Width = 0, Height = 0\<rparr>,
      Position = \<lparr>OffsetX = 0, OffsetY = 0\<rparr>,
      Rotation = RotationNormal, Reflection = ReflectionNone,
      Dimensions = \<lparr>WidthMM = 0, HeightMM = 0\<rparr>,
      Properties = [], Modes = []\<rparr>"

definition wrapErr :: "string \<Rightarrow> error option \<Rightarrow> error option" where
  "wrapErr what err = (case err of None \<Rightarrow> None | Some e \<Rightarrow> Some (ErrorParsing what e))"

definition parseOutput :: "nat \<Rightarrow> Parser \<Rightarrow> (Parser \<times> Output \<times> error option) option" where
  "parseOutput n p =
     (case parseOutputName p newOutput of
        (p1, o1, e1) \<Rightarrow>
          if e1 \<noteq> None then Some (p1, o1, wrapErr ''output name'' e1)
          else
     (case parseOutputStatus p1 o1 of
        (p2, o2, e2) \<Rightarrow>
          if e2 \<noteq> None then Some (p2, o2, wrapErr ''output status'' e2)
          else
     (case parseResolutionAndPosition p2 o2 of
        (p3, o3, e3) \<Rightarrow>
          if e3 \<noteq> None then Some (p3, o3, wrapErr ''output resolution and position'' e3)
          else
     (case parseOutputRotationAndReflection p3 o3 of
        (p4, o4, e4) \<Rightarrow>
          if e4 \<noteq> None then Some (p4, o4, wrapErr ''output rotation and reflection'' e4)
          else
     (case parseOutputRotationAndReflectionKey p4 of
        (p5, e5) \<Rightarrow>
          if e5 \<noteq> None then Some (p5, o4, wrapErr ''output rotation and reflection key'' e5)
          else
     (case parseOutputDimensions p5 o4 of
        (p6, o6, e6) \<Rightarrow>
          if e6 \<noteq> None then Some (p6, o6, wrapErr ''output dimensions'' e6)
          else
     (case parseProperties n p6 o6 of
        None \<Rightarrow> None
      | Some (p7, o7, e7) \<Rightarrow>
          if e7 \<noteq> None then Some (p7, o7, wrapErr ''output properties'' e7)
          else
     (case parseModes n p7 o7 of
        None \<Rightarrow> None
      | Some (p8, o8, e8) \<Rightarrow>
          if e8 \<noteq> None then Some (p8, o8, wrapErr ''output modes'' e8)
          else Some (p8, o8, None)))))))))"

record PropsOutput =
  Outputs :: "Output list"

text \<open>
  The loop of \<open>ParseProps\<close>: on an error it returns \<open>props\<close> as it stands, with the outputs
  appended so far.
\<close>

fun outputsLoop :: "nat \<Rightarrow> Parser \<Rightarrow> PropsOutput \<Rightarrow> (PropsOutput \<times> error option) option" where
  "outputsLoop 0 p props = None"
| "outputsLoop (Suc n) p props =
     (case parseOutput n p of
        None \<Rightarrow> None
      | Some (p1, output, err) \<Rightarrow>
          if err \<noteq> None then Some (props, err)
          else
            (let props1 = props\<lparr>Outputs := Outputs props @ [output]\<rparr>
             in if Type (token p1) = TokenTypeEOF then Some (props1, None)
                else outputsLoop n p1 props1))"

text \<open>
  \<open>ParseProps\<close> takes the lexer over the input buffer (\<open>NewLexer(input)\<close>) as its argument.
\<close>

definition ParseProps :: "nat \<Rightarrow> Parser \<Rightarrow> Lexer \<Rightarrow> (PropsOutput \<times> error option) option" where
  "ParseProps n p0 input =
     (let props = \<lparr>Outputs = []\<rparr>;
          p = p0\<lparr>lexer := input\<rparr>
      in case scan p of
           (p1, e1) \<Rightarrow>
             if e1 \<noteq> None then Some (props, e1)
             else
               (case parseScreen p1 of
                  (p2, e2) \<Rightarrow>
                    if e2 \<noteq> None then Some (props, e2)
                    else outputsLoop n p2 props))"

section \<open>The parser of \<open>src/unnamed/part_000\<close>\<close>

text \<open>
  The second parser file has the same productions over other utilities: \<open>next\<close> looks at the
  current token, \<open>consume\<close> checks it and reads the next one, \<open>skip\<close> is \<open>consume\<close> without the
  error, and \<open>expect\<close> is a check by \<open>next\<close> that reads nothing.  \<open>Lexer.Scan\<close> returns a token
  only; the lexer is the same sequence, and the error that stands beside a token is not
  looked at.  The names of this file carry the suffix \<open>_p0\<close>.
\<close>

subsection \<open>Parser utilities\<close>

text \<open>\<open>scan\<close> is \<open>p.token = p.lexer.Scan()\<close>: \<open>skipWS\<close> is not read.\<close>

definition scan_p0 :: "Parser \<Rightarrow> Parser" where
  "scan_p0 p = (case Scan (lexer p) of ((tok, err), lx) \<Rightarrow> p\<lparr>token := tok, lexer := lx\<rparr>)"

definition unexpected :: "Token \<Rightarrow> TokenType \<Rightarrow> string list \<Rightarrow> error" where
  "unexpected tok t ls = Unexpected tok t (if ls = [] then [''N/A''] else ls)"

definition next_p0 :: "TokenType \<Rightarrow> string list \<Rightarrow> Parser \<Rightarrow> bool" where
  "next_p0 t ls p =
     (if Type (token p) \<noteq> t then False
      else if ls = [] then True
      else Literal (token p) \<in> set ls)"

definition consume :: "TokenType \<Rightarrow> string list \<Rightarrow> Parser \<Rightarrow> Parser \<times> Token \<times> error option" where
  "consume t ls p =
     (let tok = token p
      in if Type tok \<noteq> t then (p, tok, Some (unexpected tok t ls))
         else if ls = [] then (scan_p0 p, tok, None)
         else if Literal tok \<in> set ls then (scan_p0 p, tok, None)
         else (p, tok, Some (unexpected tok t ls)))"

definition expect_p0 :: "TokenType \<Rightarrow> string list \<Rightarrow> Parser \<Rightarrow> error option" where
  "expect_p0 t ls p =
     (if \<not> next_p0 t ls p then Some (unexpected (token p) t ls) else None)"

definition skip_p0 :: "TokenType \<Rightarrow> string list \<Rightarrow> Parser \<Rightarrow> Parser \<times> bool" where
  "skip_p0 t ls p = (case consume t ls p of (p', tok, err) \<Rightarrow> (p', err = None))"

text \<open>
  \<open>expectAll\<close> calls the functions in turn and stops at the first error.  Each of them is an
  \<open>expectFn\<close>, that is \<open>expect\<close>, and leaves the parser as it is.
\<close>

fun expectAll :: "(Parser \<Rightarrow> error option) list \<Rightarrow> Parser \<Rightarrow> error option" where
  "expectAll [] p = None"
| "expectAll (f # fs) p = (case f p of Some e \<Rightarrow> Some e | None \<Rightarrow> expectAll fs p)"

definition parseResolution_p0 :: "string \<Rightarrow> bool \<times> Resolution" where
  "parseResolution_p0 literal =
     (let res = \<lparr>Width = 0, Height = 0\<rparr>
      in case resolutionPattern_p0 literal of
           None \<Rightarrow> (False, res)
         | Some (m1, m2) \<Rightarrow>
             (case ParseUint m1 of
                Inl e \<Rightarrow> (False, res)
              | Inr xres \<Rightarrow>
                  (case ParseUint m2 of
                     Inl e \<Rightarrow> (False, res)
                   | Inr yres \<Rightarrow> (True, \<lparr>Width = xres, Height = yres\<rparr>))))"

definition parseScreen_p0 :: "Parser \<Rightarrow> error option" where
  "parseScreen_p0 p =
     expectAll [
       expect_p0 TokenTypeName [''Screen''],
       expect_p0 TokenTypeIntValue [],
       expect_p0 TokenTypePunctuator [],
       expect_p0 TokenTypeName [''minimum''],
       expect_p0 TokenTypeIntValue [],
       expect_p0 TokenTypeName [''x''],
       expect_p0 TokenTypeIntValue [],
       expect_p0 TokenTypePunctuator [],
       expect_p0 TokenTypeName [''current''],
       expect_p0 TokenTypeIntValue [],
       expect_p0 TokenTypeName [''x''],
       expect_p0 TokenTypeIntValue [],
       expect_p0 TokenTypePunctuator [],
       expect_p0 TokenTypeName [''maximum''],
       expect_p0 TokenTypeIntValue [],
       expect_p0 TokenTypeName [''x''],
       expect_p0 TokenTypeIntValue [],
       expect_p0 TokenTypeLineTerminator []] p"

subsection \<open>The productions of an output\<close>

definition parseOutputName_p0 :: "Parser \<Rightarrow> Output \<Rightarrow> Parser \<times> Output \<times> error option" where
  "parseOutputName_p0 p0 output =
     (let p = p0\<lparr>skipWS := True\<rparr>
      in case consume TokenTypeName [] p of
           (p1, tok, err) \<Rightarrow>
             if err \<noteq> None then (p1, output, err)
             else (p1, output\<lparr>Name := Literal tok\<rparr>, None))"

definition parseOutputStatus_p0 :: "Parser \<Rightarrow> Output \<Rightarrow> Parser \<times> Output \<times> error option" where
  "parseOutputStatus_p0 p0 output =
     (let p = p0\<lparr>skipWS := True\<rparr>
      in case consume TokenTypeName [''connected'', ''disconnected''] p of
           (p1, tok, err) \<Rightarrow>
             (let output1 = (if err = None
                             then output\<lparr>IsConnected := (Literal tok = ''connected'')\<rparr>
                             else output)
              in case skip_p0 TokenTypeName [''primary''] p1 of
                   (p2, ok) \<Rightarrow>
                     (p2, if ok then output1\<lparr>IsPrimary := True\<rparr> else output1, None)))"

definition parseResolutionAndPosition_p0 ::
  "Parser \<Rightarrow> Output \<Rightarrow> Parser \<times> Output \<times> error option" where
  "parseResolutionAndPosition_p0 p0 output =
     (let p = p0\<lparr>skipWS := True\<rparr>
      in if \<not> next_p0 TokenTypeName [] p then (p, output, None)
         else
           (case parseResolution_p0 (Literal (token p)) of
              (isRes, res) \<Rightarrow>
                if \<not> isRes then (p, output, None)
                else
                  (let output1 = output\<lparr>IsEnabled := True, Resolution := res\<rparr>;
                       p1 = scan_p0 p
                   in case expect_p0 TokenTypePunctuator [''+''] p1 of
                        Some e2 \<Rightarrow> (p1, output1, Some e2)
                      | None \<Rightarrow>
                   (case consume TokenTypeIntValue [] p1 of
                        (p3, tokX, e3) \<Rightarrow>
                          if e3 \<noteq> None then (p3, output1, e3)
                          else
                   (case ParseInt (Literal tokX) of
                        Inl e4 \<Rightarrow> (p3, output1, Some e4)
                      | Inr offsetX \<Rightarrow>
                   (case expect_p0 TokenTypePunctuator [''+''] p3 of
                        Some e5 \<Rightarrow> (p3, output1, Some e5)
                      | None \<Rightarrow>
                   (case consume TokenTypeIntValue [] p3 of
                        (p6, tokY, e6) \<Rightarrow>
                          if e6 \<noteq> None then (p6, output1, e6)
                          else
                   (case ParseInt (Literal tokY) of
                        Inl e7 \<Rightarrow> (p6, output1, Some e7)
                      | Inr offsetY \<Rightarrow>
                          (p6,
                           output1\<lparr>Position := \<lparr>OffsetX = offsetX, OffsetY = offsetY\<rparr>\<rparr>,
                           None)))))))))"

definition parseOutputRotationAndReflection_p0 ::
  "Parser \<Rightarrow> Output \<Rightarrow> Parser \<times> Output \<times> error option" where
  "parseOutputRotationAndReflection_p0 p0 output =
     (let p = p0\<lparr>skipWS := True\<rparr>
      in case (case consume TokenTypeName [''normal'', ''left'', ''inverted'', ''right''] p of
                 (p1, tok, err) \<Rightarrow>
                   if err = None
                   then (scan_p0 p1,
                         (case rotationOf (Literal tok) of
                            None \<Rightarrow> output
                          | Some r \<Rightarrow> output\<lparr>Rotation := r\<rparr>))
                   else (p1, output)) of
           (p1, output1) \<Rightarrow>
             (case consume TokenTypeName [''x'', ''y''] p1 of
                (p2, tok, err) \<Rightarrow>
                  if err = None
                  then (case expect_p0 TokenTypeName [''axis''] p2 of
                          Some e \<Rightarrow> (p2, output1, Some e)
                        | None \<Rightarrow>
                            (p2,
                             (if Literal tok = ''x'' then output1\<lparr>Reflection := ReflectionXAxis\<rparr>
                              else if Literal tok = ''y''
                              then output1\<lparr>Reflection := ReflectionYAxis\<rparr>
                              else output1),
                             None))
                  else (p2, output1, None)))"

definition parseOutputRotationAndReflectionKey_p0 :: "Parser \<Rightarrow> Parser \<times> error option" where
  "parseOutputRotationAndReflectionKey_p0 p0 =
     (let p = p0\<lparr>skipWS := True\<rparr>
      in if Type (token p) \<noteq> TokenTypePunctuator \<and> Literal (token p) = ''(''
         then (p, None)
         else (p, expectAll [
                 expect_p0 TokenTypePunctuator [''(''],
                 expect_p0 TokenTypeName [''normal''],
                 expect_p0 TokenTypeName [''left''],
                 expect_p0 TokenTypeName [''inverted''],
                 expect_p0 TokenTypeName [''right''],
                 expect_p0 TokenTypeName [''x''],
                 expect_p0 TokenTypeName [''axis''],
                 expect_p0 TokenTypeName [''y''],
                 expect_p0 TokenTypeName [''axis''],
                 expect_p0 TokenTypePunctuator ['')'']] p))"

definition parseOutputDimension_p0 :: "Parser \<Rightarrow> Parser \<times> nat \<times> error option" where
  "parseOutputDimension_p0 p0 =
     (let p = p0\<lparr>skipWS := True\<rparr>
      in case consume TokenTypeName [] p of
           (p1, tok, err) \<Rightarrow>
             if err \<noteq> None then (p1, 0, err)
             else
               (case dimensionPattern (Literal tok) of
                  None \<Rightarrow> (p1, 0, None)
                | Some m \<Rightarrow>
                    (case ParseUint m of
                       Inl e \<Rightarrow> (p1, 0, Some e)
                     | Inr dim \<Rightarrow> (p1, dim, None))))"

text \<open>\<open>if p.skip(TokenTypeLineTerminator) { p.skipWS = false }\<close>, which occurs twice.\<close>

definition skipLineTerminator_p0 :: "Parser \<Rightarrow> Parser" where
  "skipLineTerminator_p0 p =
     (case skip_p0 TokenTypeLineTerminator [] p of
        (p1, ok) \<Rightarrow> if ok then p1\<lparr>skipWS := False\<rparr> else p1)"

definition parseOutputDimensions_p0 :: "Parser \<Rightarrow> Output \<Rightarrow> Parser \<times> Output \<times> error option" where
  "parseOutputDimensions_p0 p0 output =
     (let p = p0\<lparr>skipWS := True\<rparr>
      in if \<not> next_p0 TokenTypeName [] p
         then (skipLineTerminator_p0 p, output, None)
         else
           (case parseOutputDimension_p0 p of
              (p1, xdim, e1) \<Rightarrow>
                if e1 \<noteq> None then (p1, output, e1)
                else
           (case expect_p0 TokenTypeName [''x''] p1 of
              Some e2 \<Rightarrow> (p1, output, Some e2)
            | None \<Rightarrow>
           (case parseOutputDimension_p0 p1 of
              (p3, ydim, e3) \<Rightarrow>
                if e3 \<noteq> None then (p3, output, e3)
                else (skipLineTerminator_p0 p3,
                      output\<lparr>Dimensions := \<lparr>WidthMM = xdim, HeightMM = ydim\<rparr>\<rparr>,
                      None)))))"

subsection \<open>Properties\<close>

fun nameLoop_p0 :: "nat \<Rightarrow> Parser \<Rightarrow> string \<Rightarrow> (Parser \<times> string) option" where
  "nameLoop_p0 0 p name = None"
| "nameLoop_p0 (Suc n) p name =
     (if Type (token p) = TokenTypePunctuator \<and> Literal (token p) = '':''
      then Some (p, name)
      else nameLoop_p0 n (scan_p0 p) (name @ Literal (token p)))"

fun appendLine_p0 :: "nat \<Rightarrow> Parser \<Rightarrow> string \<Rightarrow> (Parser \<times> string) option" where
  "appendLine_p0 0 p v = None"
| "appendLine_p0 (Suc n) p v =
     (let p1 = scan_p0 p
      in if Type (token p1) = TokenTypeLineTerminator then Some (p1, v)
         else appendLine_p0 n p1 (v @ Literal (token p1)))"

fun skipLine_p0 :: "nat \<Rightarrow> Parser \<Rightarrow> Parser option" where
  "skipLine_p0 0 p = None"
| "skipLine_p0 (Suc n) p =
     (let p1 = scan_p0 p
      in if Type (token p1) = TokenTypeLineTerminator then Some p1
         else skipLine_p0 n p1)"

text \<open>The third component is \<open>stop\<close>.\<close>

fun contAppend_p0 :: "nat \<Rightarrow> Parser \<Rightarrow> string \<Rightarrow> (Parser \<times> string \<times> bool) option" where
  "contAppend_p0 0 p v = None"
| "contAppend_p0 (Suc n) p v =
     (let p1 = scan_p0 p
      in if \<not> isTab (token p1) then Some (p1, v, True)
         else
           (let p2 = scan_p0 p1
            in if \<not> isTab (token p2) then Some (p2, v, False)
               else (case appendLine_p0 n p2 v of
                       None \<Rightarrow> None
                     | Some (p3, v3) \<Rightarrow> contAppend_p0 n p3 v3)))"

fun contSkip_p0 :: "nat \<Rightarrow> Parser \<Rightarrow> (Parser \<times> bool) option" where
  "contSkip_p0 0 p = None"
| "contSkip_p0 (Suc n) p =
     (let p1 = scan_p0 p
      in if \<not> isTab (token p1) then Some (p1, True)
         else
           (let p2 = scan_p0 p1
            in if \<not> isTab (token p2) then Some (p2, False)
               else (case skipLine_p0 n p2 of
                       None \<Rightarrow> None
                     | Some p3 \<Rightarrow> contSkip_p0 n p3)))"

definition propertyValue_p0 :: "nat \<Rightarrow> Parser \<Rightarrow> (Parser \<times> string \<times> bool) option" where
  "propertyValue_p0 n p =
     (if Type (token p) = TokenTypeLineTerminator then contAppend_p0 n p []
      else if Type (token p) = TokenTypeName \<or> Type (token p) = TokenTypeIntValue
              \<or> Type (token p) = TokenTypeFloatValue
      then
        (case appendLine_p0 n p (Literal (token p)) of
           None \<Rightarrow> None
         | Some (p1, v1) \<Rightarrow>
             (case contSkip_p0 n p1 of
                None \<Rightarrow> None
              | Some (p2, stop) \<Rightarrow> Some (p2, v1, stop)))
      else Some (p, [], False))"

text \<open>The result of \<open>parseProperty\<close> is the parser, the output, \<open>stop\<close> and the error.\<close>

definition parseProperty_p0 ::
  "nat \<Rightarrow> Parser \<Rightarrow> Output \<Rightarrow> (Parser \<times> Output \<times> bool \<times> error option) option" where
  "parseProperty_p0 n p output =
     (case consume TokenTypeName [] p of
        (p1, tok, e1) \<Rightarrow>
          if e1 \<noteq> None then Some (p1, output, False, e1)
          else
            (case nameLoop_p0 n p1 (Literal tok) of
               None \<Rightarrow> None
             | Some (p2, name) \<Rightarrow>
                 (case expectAll [expect_p0 TokenTypePunctuator ['':''],
                                  expect_p0 TokenTypeWhiteSpace ['' '']] p2 of
                    Some e3 \<Rightarrow> Some (p2, output, False, Some e3)
                  | None \<Rightarrow>
                      (case propertyValue_p0 n p2 of
                         None \<Rightarrow> None
                       | Some (p4, v, stop) \<Rightarrow>
                           Some (p4,
                                 output\<lparr>Properties :=
                                   AList.update (TrimSpace name) (TrimSpace v)
                                     (Properties output)\<rparr>,
                                 stop, None)))))"

fun parsePropertiesLoop_p0 ::
  "nat \<Rightarrow> Parser \<Rightarrow> Output \<Rightarrow> (Parser \<times> Output \<times> error option) option" where
  "parsePropertiesLoop_p0 0 p output = None"
| "parsePropertiesLoop_p0 (Suc n) p output =
     (case parseProperty_p0 n p output of
        None \<Rightarrow> None
      | Some (p1, output1, stop, err) \<Rightarrow>
          if err \<noteq> None then Some (p1, output1, err)
          else if stop then Some (p1, output1, None)
          else if Type (token p1) \<noteq> TokenTypeName then Some (p1, output1, None)
          else parsePropertiesLoop_p0 n p1 output1)"

text \<open>\<open>parseProperties\<close> asks for a tab first, and fails without one.\<close>

definition parseProperties_p0 ::
  "nat \<Rightarrow> Parser \<Rightarrow> Output \<Rightarrow> (Parser \<times> Output \<times> error option) option" where
  "parseProperties_p0 n p0 output =
     (let p = p0\<lparr>skipWS := False\<rparr>
      in case expect_p0 TokenTypeWhiteSpace [[CHR 0x09]] p of
           Some e \<Rightarrow> Some (p, output, Some e)
         | None \<Rightarrow> parsePropertiesLoop_p0 n p output)"

subsection \<open>Modes\<close>

fun ratesLoop_p0 :: "nat \<Rightarrow> Parser \<Rightarrow> Rate list \<Rightarrow> (Parser \<times> Rate list \<times> error option) option" where
  "ratesLoop_p0 0 p rates = None"
| "ratesLoop_p0 (Suc n) p rates =
     (if \<not> next_p0 TokenTypeFloatValue [] p then Some (p, rates, None)
      else
        (case ParseFloat (Literal (token p)) of
           Inl e \<Rightarrow> Some (p, rates, Some e)
         | Inr r \<Rightarrow>
             (case skip_p0 TokenTypePunctuator [''*''] (scan_p0 p) of
                (p2, cur) \<Rightarrow>
                  (case skip_p0 TokenTypePunctuator [''+''] p2 of
                     (p3, pref) \<Rightarrow>
                       ratesLoop_p0 n p3
                         (rates @ [\<lparr>Rate = r, IsCurrent = cur, IsPreferred = pref\<rparr>])))))"

text \<open>
  The loop over the mode lines.  A name that is not a resolution ends the list without an
  error in this file: \<open>return nil\<close>, with the token still the current one.
\<close>

fun modesLoop_p0 :: "nat \<Rightarrow> Parser \<Rightarrow> Output \<Rightarrow> (Parser \<times> Output \<times> error option) option" where
  "modesLoop_p0 0 p output = None"
| "modesLoop_p0 (Suc n) p output =
     (if Type (token p) \<noteq> TokenTypeName then Some (p, output, None)
      else
        (case parseResolution_p0 (Literal (token p)) of
           (isRes, res) \<Rightarrow>
             if \<not> isRes then Some (p, output, None)
             else
               (case ratesLoop_p0 n (scan_p0 p) [] of
                  None \<Rightarrow> None
                | Some (p2, rates, e2) \<Rightarrow>
                    if e2 \<noteq> None then Some (p2, output, e2)
                    else modesLoop_p0 n (fst (skip_p0 TokenTypeLineTerminator [] p2))
                           (output\<lparr>Modes := Modes output
                              @ [\<lparr>ModeResolution = res, Rates = rates\<rparr>]\<rparr>))))"

definition parseModes_p0 :: "nat \<Rightarrow> Parser \<Rightarrow> Output \<Rightarrow> (Parser \<times> Output \<times> error option) option" where
  "parseModes_p0 n p0 output =
     (let p = p0\<lparr>skipWS := True\<rparr>
      in if Type (token p) \<noteq> TokenTypeWhiteSpace \<and> Literal (token p) \<noteq> '' ''
         then Some (p, output, None)
         else modesLoop_p0 n (scan_p0 p) output)"

subsection \<open>An output, and the whole report\<close>

definition parseOutput_p0 :: "nat \<Rightarrow> Parser \<Rightarrow> (Parser \<times> Output \<times> error option) option" where
  "parseOutput_p0 n p =
     (case parseOutputName_p0 p newOutput of
        (p1, o1, e1) \<Rightarrow>
          if e1 \<noteq> None then Some (p1, o1, wrapErr ''output name'' e1)
          else
     (case parseOutputStatus_p0 p1 o1 of
        (p2, o2, e2) \<Rightarrow>
          if e2 \<noteq> None then Some (p2, o2, wrapErr ''output status'' e2)
          else
     (case parseResolutionAndPosition_p0 p2 o2 of
        (p3, o3, e3) \<Rightarrow>
          if e3 \<noteq> None then Some (p3, o3, wrapErr ''output resolution and position'' e3)
          else
     (case parseOutputRotationAndReflection_p0 p3 o3 of
        (p4, o4, e4) \<Rightarrow>
          if e4 \<noteq> None then Some (p4, o4, wrapErr ''output rotation and reflection'' e4)
          else
     (case parseOutputRotationAndReflectionKey_p0 p4 of
        (p5, e5) \<Rightarrow>
          if e5 \<noteq> None then Some (p5, o4, wrapErr ''output rotation and reflection key'' e5)
          else
     (case parseOutputDimensions_p0 p5 o4 of
        (p6, o6, e6) \<Rightarrow>
          if e6 \<noteq> None then Some (p6, o6, wrapErr ''output dimensions'' e6)
          else
     (case parseProperties_p0 n p6 o6 of
        None \<Rightarrow> None
      | Some (p7, o7, e7) \<Rightarrow>
          if e7 \<noteq> None then Some (p7, o7, wrapErr ''output properties'' e7)
          else
     (case parseModes_p0 n p7 o7 of
        None \<Rightarrow> None
      | Some (p8, o8, e8) \<Rightarrow>
          if e8 \<noteq> None then Some (p8, o8, wrapErr ''output modes'' e8)
          else Some (p8, o8, None)))))))))"

fun outputsLoop_p0 :: "nat \<Rightarrow> Parser \<Rightarrow> PropsOutput \<Rightarrow> (PropsOutput \<times> error option) option" where
  "outputsLoop_p0 0 p props = None"
| "outputsLoop_p0 (Suc n) p props =
     (case parseOutput_p0 n p of
        None \<Rightarrow> None
      | Some (p1, output, err) \<Rightarrow>
          if err \<noteq> None then Some (props, err)
          else
            (let props1 = props\<lparr>Outputs := Outputs props @ [output]\<rparr>
             in if Type (token p1) = TokenTypeEOF then Some (props1, None)
                else outputsLoop_p0 n p1 props1))"

definition ParseProps_p0 :: "nat \<Rightarrow> Parser \<Rightarrow> Lexer \<Rightarrow> (PropsOutput \<times> error option) option" where
  "ParseProps_p0 n p0 input =
     (let props = \<lparr>Outputs = []\<rparr>;
          p = scan_p0 (p0\<lparr>lexer := input\<rparr>)
      in case parseScreen_p0 p of
           Some e \<Rightarrow> Some (props, Some e)
         | None \<Rightarrow> outputsLoop_p0 n p props)"

section \<open>The caller: \<open>src/unnamed/part_001\<close>\<close>

text \<open>
  \<open>parseProps\<close> runs a parser and drops its result when there is an error: it returns
  \<open>nil, err\<close>.  The parser it calls is of a package that is not among the sources; it is the
  argument \<open>parse\<close> here.
\<close>

definition parseProps ::
  "('i \<Rightarrow> (PropsOutput \<times> error option) option) \<Rightarrow> 'i \<Rightarrow> (Output list option \<times> error option) option" where
  "parseProps parse rawProps =
     (case parse rawProps of
        None \<Rightarrow> None
      | Some (parsed, err) \<Rightarrow>
          if err \<noteq> None then Some (None, err)
          else Some (Some (Outputs parsed), None))"

text \<open>
  \<open>calculateHashForOutputs\<close> writes the name and the \<open>EDID\<close> property of every connected
  output into an MD5 sum and returns its hexadecimal form.  The hash of the standard library
  (\<open>md5\<close>, then \<open>hex.EncodeToString\<close>) is the argument \<open>md5hex\<close>, a function of the bytes
  written.  A key that is missing from a Go map reads as the empty string.
\<close>

definition lookupProperty :: "(string \<times> string) list \<Rightarrow> string \<Rightarrow> string" where
  "lookupProperty m k = (case map_of m k of None \<Rightarrow> [] | Some v \<Rightarrow> v)"

fun written :: "Output list \<Rightarrow> string" where
  "written [] = []"
| "written (output # outputs) =
     (if \<not> IsConnected output then written outputs
      else Name output @ lookupProperty (Properties output) ''EDID'' @ written outputs)"

definition calculateHashForOutputs :: "(string \<Rightarrow> string) \<Rightarrow> Output list \<Rightarrow> string \<times> error option" where
  "calculateHashForOutputs md5hex outputs = (md5hex (written outputs), None)"

section \<open>Writing token sequences\<close>

text \<open>
  A token sequence is written as a list of kinds and literals, whitespace and line
  terminators included; \<open>tokens\<close> adds the positions: lines and columns count from 1, and the
  column is the byte offset in the line.  No scan fails in such a sequence.
\<close>

fun positioned :: "nat \<Rightarrow> nat \<Rightarrow> (TokenType \<times> string) list \<Rightarrow> Lexer" where
  "positioned l c [] = []"
| "positioned l c ((t, s) # r) =
     (\<lparr>Type = t, Literal = s, Line = l, Column = c\<rparr>, None)
       # (if t = TokenTypeLineTerminator then positioned (l + 1) 1 r
          else positioned l (c + length s) r)"

definition tokens :: "(TokenType \<times> string) list \<Rightarrow> Lexer" where
  "tokens xs = positioned 1 1 xs"

abbreviation N :: "string \<Rightarrow> TokenType \<times> string" where
  "N s \<equiv> (TokenTypeName, s)"

abbreviation I :: "string \<Rightarrow> TokenType \<times> string" where
  "I s \<equiv> (TokenTypeIntValue, s)"

abbreviation F :: "string \<Rightarrow> TokenType \<times> string" where
  "F s \<equiv> (TokenTypeFloatValue, s)"

abbreviation P :: "string \<Rightarrow> TokenType \<times> string" where
  "P s \<equiv> (TokenTypePunctuator, s)"

abbreviation W :: "string \<Rightarrow> TokenType \<times> string" where
  "W s \<equiv> (TokenTypeWhiteSpace, s)"

abbreviation SP :: "TokenType \<times> string" where
  "SP \<equiv> (TokenTypeWhiteSpace, '' '')"

abbreviation TAB :: "TokenType \<times> string" where
  "TAB \<equiv> (TokenTypeWhiteSpace, [CHR 0x09])"

abbreviation LT :: "TokenType \<times> string" where
  "LT \<equiv> (TokenTypeLineTerminator, [CHR 0x0A])"

text \<open>
  The screen header of a report:
  \<open>Screen 0: minimum 320 x 200, current 1920 x 1080, maximum 8192 x 8192\<close>.
\<close>

definition screenHeader :: "(TokenType \<times> string) list" where
  "screenHeader =
     [N ''Screen'', SP, I ''0'', P '':'', SP,
      N ''minimum'', SP, I ''320'', SP, N ''x'', SP, I ''200'', P '','', SP,
      N ''current'', SP, I ''1920'', SP, N ''x'', SP, I ''1080'', P '','', SP,
      N ''maximum'', SP, I ''8192'', SP, N ''x'', SP, I ''8192'', LT]"

text \<open>The legend \<open>(normal left inverted right x axis y axis)\<close>.\<close>

definition legend :: "(TokenType \<times> string) list" where
  "legend =
     [P ''('', N ''normal'', SP, N ''left'', SP, N ''inverted'', SP, N ''right'', SP,
      N ''x'', SP, N ''axis'', SP, N ''y'', SP, N ''axis'', P '')'']"

text \<open>
  The output block
  \<open>eDP-1 connected primary 1920x1080+0+0 normal (normal left inverted right x axis y axis) 310mm x 170mm\<close>
  and its line terminator.
\<close>

definition eDP1_block :: "(TokenType \<times> string) list" where
  "eDP1_block =
     [N ''eDP-1'', SP, N ''connected'', SP, N ''primary'', SP,
      N ''1920x1080'', P ''+'', I ''0'', P ''+'', I ''0'', SP, N ''normal'', SP]
     @ legend @ [SP, N ''310mm'', SP, N ''x'', SP, N ''170mm'', LT]"

text \<open>
  An output block with one property line and one mode line:
  \<open>HDMI-1 connected (normal left inverted right x axis y axis)\<close>, then a tab and
  \<open>Brightness: 1.0\<close>, then three spaces and \<open>1920x1080i     60.00*+  59.94  \<close>.
\<close>

definition modeLine :: "(TokenType \<times> string) list" where
  "modeLine =
     [W ''   '', N ''1920x1080i'', W ''     '', F ''60.00'', P ''*'', P ''+'', W ''  '',
      F ''59.94'', W ''  '', LT]"

definition modeBlock :: "(TokenType \<times> string) list" where
  "modeBlock =
     [N ''HDMI-1'', SP, N ''connected'', SP] @ legend
     @ [LT, TAB, N ''Brightness'', P '':'', SP, F ''1.0'', LT] @ modeLine"

text \<open>
  The parser after its first \<open>scan\<close> of a token sequence, as at the start of \<open>ParseProps\<close>.
\<close>

definition startOn :: "bool \<Rightarrow> (TokenType \<times> string) list \<Rightarrow> Parser" where
  "startOn sk xs = fst (scan (NewParser\<lparr>lexer := tokens xs, skipWS := sk\<rparr>))"

definition startOn_p0 :: "(TokenType \<times> string) list \<Rightarrow> Parser" where
  "startOn_p0 xs = scan_p0 (NewParser\<lparr>lexer := tokens xs\<rparr>)"

section \<open>The resolution patterns in the words of the specification\<close>

text \<open>
  One or more digits, the letter \<open>x\<close>, one or more digits and, where \<open>interlace\<close> allows it,
  an optional trailing \<open>i\<close>; \<open>a\<close> and \<open>b\<close> are the two runs of digits.
\<close>

definition resolutionShape :: "bool \<Rightarrow> string \<Rightarrow> string \<Rightarrow> string \<Rightarrow> bool" where
  "resolutionShape interlace s a b =
     (a \<noteq> [] \<and> b \<noteq> [] \<and> list_all digit a \<and> list_all digit b
      \<and> (s = a @ ''x'' @ b \<or> (interlace \<and> s = a @ ''x'' @ b @ ''i'')))"

section \<open>The outputs that a run completes\<close>

text \<open>
  The outputs that the successive calls of \<open>parseOutput\<close> complete from a parser state on,
  up to the first call that fails or the end of the input.
\<close>

fun completedOutputs :: "nat \<Rightarrow> Parser \<Rightarrow> Output list" where
  "completedOutputs 0 p = []"
| "completedOutputs (Suc n) p =
     (case parseOutput n p of
        None \<Rightarrow> []
      | Some (p1, output, err) \<Rightarrow>
          if err \<noteq> None then []
          else if Type (token p1) = TokenTypeEOF then [output]
          else output # completedOutputs n p1)"

text \<open>The output block \<open>HDMI-1 connected (normal left inverted right x axis y axis)\<close>.\<close>

definition hdmiBlock :: "(TokenType \<times> string) list" where
  "hdmiBlock = [N ''HDMI-1'', SP, N ''connected'', SP] @ legend @ [LT]"

text \<open>
  An output block with an interlaced current resolution:
  \<open>HDMI-1 connected 1920x1080i+0+0 (normal left inverted right x axis y axis)\<close>.
\<close>

definition interlacedBlock :: "(TokenType \<times> string) list" where
  "interlacedBlock =
     [N ''HDMI-1'', SP, N ''connected'', SP, N ''1920x1080i'', P ''+'', I ''0'', P ''+'', I ''0'', SP]
     @ legend @ [LT]"

section \<open>A block with properties\<close>

text \<open>
  Two properties after the line of an output: \<open>Broadcast RGB\<close>, whose value \<open>Automatic\<close>
  starts on the line of the colon and is followed by a continuation line, and \<open>EDID\<close>, whose
  value starts after the line terminator and fills two continuation lines.
\<close>

definition inlineProperty :: "(TokenType \<times> string) list" where
  "inlineProperty =
     [TAB, N ''Broadcast'', SP, N ''RGB'', P '':'', SP, N ''Automatic'', SP, LT,
      TAB, TAB, N ''supported'', P '':'', SP, N ''Automatic'', P '','', SP, N ''Full'', LT]"

definition continuedProperty :: "(TokenType \<times> string) list" where
  "continuedProperty =
     [TAB, N ''EDID'', P '':'', SP, LT,
      TAB, TAB, N ''00ffffffffffff00'', LT,
      TAB, TAB, N ''4d10cc1400000000'', LT]"

definition propertyBlock :: "(TokenType \<times> string) list" where
  "propertyBlock = hdmiBlock @ inlineProperty @ continuedProperty"

section \<open>Unsigned integer tokens\<close>

text \<open>
  Modelled from the spec: the lexer makes an \<open>IntValue\<close> token of a run of ASCII digits, so
  the literal of such a token has no sign.  \<open>unsignedInts\<close> says so of a lexer, \<open>parserOK\<close> of
  a parser: of its current token and of the tokens that its lexer has still to deliver.
\<close>

definition unsignedInt :: "Token \<Rightarrow> bool" where
  "unsignedInt t = (Type t = TokenTypeIntValue \<longrightarrow> list_all digit (Literal t))"

definition unsignedInts :: "Lexer \<Rightarrow> bool" where
  "unsignedInts lx = list_all (\<lambda>(t, e). unsignedInt t) lx"

definition parserOK :: "Parser \<Rightarrow> bool" where
  "parserOK p = (unsignedInt (token p) \<and> unsignedInts (lexer p))"

text \<open>A step of the parser that keeps this property.\<close>

definition keepsOK :: "(Parser \<Rightarrow> Parser \<times> error option) \<Rightarrow> bool" where
  "keepsOK f = (\<forall>p p' e. f p = (p', e) \<longrightarrow> parserOK p \<longrightarrow> parserOK p')"


text \<open>
  The output block \<open>eDP-1 connected primary 1920x1080+1920+0 normal (...)\<close>, with the two
  signs of the position as parameters.
\<close>

definition positionBlock :: "string \<Rightarrow> string \<Rightarrow> (TokenType \<times> string) list" where
  "positionBlock s1 s2 =
     [N ''eDP-1'', SP, N ''connected'', SP, N ''primary'', SP,
      N ''1920x1080'', P s1, I ''1920'', P s2, I ''0'', SP, N ''normal'', SP] @ legend @ [LT]"

section \<open>Evaluation\<close>

text \<open>\<open>scan\<close> on a parser that is written out.\<close>

lemma scan_nil:
  "scan \<lparr>lexer = [], token = t, skipWS = b\<rparr>
     = (\<lparr>lexer = [], token = eofToken, skipWS = b\<rparr>, None)"
  by (simp add: scan.simps Scan_def eofToken_def Let_def)

lemma scan_cons:
  "scan \<lparr>lexer = (tok, None) # r, token = t, skipWS = b\<rparr> =
     (if b \<and> Type tok = TokenTypeWhiteSpace then scan \<lparr>lexer = r, token = tok, skipWS = b\<rparr>
      else (\<lparr>lexer = r, token = tok, skipWS = b\<rparr>, None))"
  by (subst scan.simps) (simp add: Scan_def Let_def)

lemma scan_err:
  "scan \<lparr>lexer = (tok, Some e) # r, token = t, skipWS = b\<rparr>
     = (\<lparr>lexer = r, token = tok, skipWS = b\<rparr>, Some e)"
  by (subst scan.simps) (simp add: Scan_def Let_def)

lemma scan_p0_nil:
  "scan_p0 \<lparr>lexer = [], token = t, skipWS = b\<rparr> = \<lparr>lexer = [], token = eofToken, skipWS = b\<rparr>"
  by (simp add: scan_p0_def Scan_def)

lemma scan_p0_cons:
  "scan_p0 \<lparr>lexer = (tok, e) # r, token = t, skipWS = b\<rparr> = \<lparr>lexer = r, token = tok, skipWS = b\<rparr>"
  by (simp add: scan_p0_def Scan_def)

lemmas ev_lib =
  Let_def eofToken_def ParseUint_def ParseInt_def ParseFloat_def dec_def digit_def
  digit_val_def TrimSpace_def spaceRunes_def trimLeft.simps dimensionPattern_def resolutionPattern_def
  resolutionPattern_p0_def rotationOf_def isTab_def newOutput_def wrapErr_def
  NewParser_def tokens_def screenHeader_def legend_def eDP1_block_def modeLine_def
  modeBlock_def hdmiBlock_def interlacedBlock_def positionBlock_def
  inlineProperty_def continuedProperty_def propertyBlock_def

lemmas ev_go =
  scan_nil scan_cons scan_err match_def expect_def skip_def skipWithLiteral_def
  parseResolution_def parseScreen_def parseOutputName_def parseOutputStatus_def
  parseResolutionAndPosition_def parseOutputRotationAndReflection_def
  parseOutputRotationAndReflectionKey_def parseOutputDimension_def
  parseOutputDimensions_def propertyValue_def parseProperty_def parseProperties_def
  parseModes_def parseOutput_def ParseProps_def startOn_def

lemmas ev_p0 =
  scan_p0_nil scan_p0_cons unexpected_def next_p0_def consume_def expect_p0_def skip_p0_def
  parseResolution_p0_def parseScreen_p0_def parseOutputName_p0_def parseOutputStatus_p0_def
  parseResolutionAndPosition_p0_def parseOutputRotationAndReflection_p0_def
  parseOutputRotationAndReflectionKey_p0_def parseOutputDimension_p0_def
  skipLineTerminator_p0_def parseOutputDimensions_p0_def propertyValue_p0_def
  parseProperty_p0_def parseProperties_p0_def parseModes_p0_def parseOutput_p0_def
  ParseProps_p0_def startOn_p0_def

section \<open>The second parser never gets past the screen header\<close>

text \<open>
  \<open>expect\<close> of \<open>src/unnamed/part_000\<close> reads nothing, so the second check of \<open>parseScreen\<close>
  looks at the token of the first: a name is not an integer.
\<close>

lemma parseScreen_p0_fails: "parseScreen_p0 p \<noteq> None"
  by (simp add: parseScreen_p0_def expect_p0_def next_p0_def)

lemma ParseProps_p0_fails: "\<exists>e. ParseProps_p0 n p lx = Some (\<lparr>Outputs = []\<rparr>, Some e)"
  using parseScreen_p0_fails [of "scan_p0 (p\<lparr>lexer := lx\<rparr>)"]
  by (auto simp: ParseProps_p0_def Let_def split: option.splits)

section \<open>The claims\<close>

text \<open>
  Claim C1.  The report with the screen header and the block
  \<open>eDP-1 connected primary 1920x1080+0+0 normal (...) 310mm x 170mm\<close> should give one
  output, connected, primary and enabled, with no error.  Neither parser does that.
  \<open>src/xrandr/parser.go\<close> returns an error: the line terminator after the dimensions is left
  as the current token and is then taken for the name of a second output; and the output it
  has built is not connected, since \<open>parseOutputStatus\<close> scans past \<open>connected\<close> before it
  compares.  \<open>src/unnamed/part_000\<close> fails in the screen header.
\<close>

theorem C1_eDP1_block_fails:
  "ParseProps (Suc (Suc n)) NewParser (tokens (screenHeader @ eDP1_block)) =
     Some (\<lparr>Outputs =
              [\<lparr>Name = ''eDP-1'', IsConnected = False, IsPrimary = True, IsEnabled = True,
                Resolution = \<lparr>Width = 1920, Height = 1080\<rparr>,
                Position = \<lparr>OffsetX = 0, OffsetY = 0\<rparr>,
                Rotation = RotationNormal, Reflection = ReflectionNone,
                Dimensions = \<lparr>WidthMM = 310, HeightMM = 170\<rparr>,
                Properties = [], Modes = []\<rparr>]\<rparr>,
           Some (ErrorParsing ''output name''
                  (UnexpectedToken
                     \<lparr>Type = TokenTypeLineTerminator, Literal = [CHR 0x0A], Line = 2,
                      Column = 102\<rparr>
                     TokenTypeName)))
   \<and> ParseProps_p0 m NewParser (tokens (screenHeader @ eDP1_block)) =
     Some (\<lparr>Outputs = []\<rparr>,
           Some (Unexpected \<lparr>Type = TokenTypeName, Literal = ''Screen'', Line = 1, Column = 1\<rparr>
                   TokenTypeIntValue [''N/A'']))"
proof
  show "ParseProps (Suc (Suc n)) NewParser (tokens (screenHeader @ eDP1_block)) =
     Some (\<lparr>Outputs =
              [\<lparr>Name = ''eDP-1'', IsConnected = False, IsPrimary = True, IsEnabled = True,
                Resolution = \<lparr>Width = 1920, Height = 1080\<rparr>,
                Position = \<lparr>OffsetX = 0, OffsetY = 0\<rparr>,
                Rotation = RotationNormal, Reflection = ReflectionNone,
                Dimensions = \<lparr>WidthMM = 310, HeightMM = 170\<rparr>,
                Properties = [], Modes = []\<rparr>]\<rparr>,
           Some (ErrorParsing ''output name''
                  (UnexpectedToken
                     \<lparr>Type = TokenTypeLineTerminator, Literal = [CHR 0x0A], Line = 2,
                      Column = 102\<rparr>
                     TokenTypeName)))"
    by (cases n) (simp_all add: ev_lib ev_go)
  show "ParseProps_p0 m NewParser (tokens (screenHeader @ eDP1_block)) =
     Some (\<lparr>Outputs = []\<rparr>,
           Some (Unexpected \<lparr>Type = TokenTypeName, Literal = ''Screen'', Line = 1, Column = 1\<rparr>
                   TokenTypeIntValue [''N/A'']))"
    by (simp add: ev_lib ev_p0)
qed



lemma parseModes_line_in_report:
  "ParseProps (Suc (Suc (Suc n))) NewParser
     (tokens (screenHeader @ hdmiBlock
              @ [W ''   '', N ''HDMI-2'', SP, N ''disconnected'', SP] @ legend @ [LT]))
   = Some (\<lparr>Outputs = [newOutput\<lparr>Name := ''HDMI-1''\<rparr>, newOutput\<lparr>Name := ''HDMI-2''\<rparr>]\<rparr>,
           None)"
  by (simp add: ev_lib ev_go)



text \<open>
  Claim C3.  An error should come with no outputs.  \<open>ParseProps\<close> returns \<open>props, err\<close> with
  the outputs appended so far: here the first output is complete and the second one fails.
\<close>

theorem C3_counterexample:
  "ParseProps (Suc (Suc 0)) NewParser
     (tokens (screenHeader @ hdmiBlock @ [N ''DP-1'', SP, N ''connected'', LT]))
   = Some (\<lparr>Outputs = [newOutput\<lparr>Name := ''HDMI-1''\<rparr>]\<rparr>,
           Some (ErrorParsing ''output rotation and reflection key''
                  (UnexpectedToken
                     \<lparr>Type = TokenTypeLineTerminator, Literal = [CHR 0x0A], Line = 3, Column = 15\<rparr>
                     TokenTypePunctuator)))"
  by (simp add: ev_lib ev_go hdmiBlock_def)

text \<open>The loop of \<open>ParseProps\<close> appends the outputs that are completed, error or not.\<close>

lemma outputsLoop_completed:
  "outputsLoop n p props = Some (props', err) \<Longrightarrow>
     Outputs props' = Outputs props @ completedOutputs n p"
proof (induction n arbitrary: p props)
  case 0
  then show ?case by simp
next
  case (Suc n)
  then show ?case
    by (auto simp: Let_def split: option.splits prod.splits if_splits)
qed

text \<open>
  Claim C3, amended: when parsing fails, the outputs beside the error are none if the first
  scan or the screen header failed, and otherwise the outputs completed before the one that
  failed; the caller \<open>parseProps\<close> drops them and returns no outputs with the error.
\<close>

theorem C3_outputs_beside_an_error:
  assumes "ParseProps n p0 lx = Some (props, Some e)"
  shows "Outputs props =
           (if snd (scan (p0\<lparr>lexer := lx\<rparr>)) \<noteq> None
               \<or> snd (parseScreen (fst (scan (p0\<lparr>lexer := lx\<rparr>)))) \<noteq> None
            then []
            else completedOutputs n (fst (parseScreen (fst (scan (p0\<lparr>lexer := lx\<rparr>))))))
         \<and> parseProps (ParseProps n p0) lx = Some (None, Some e)"
proof
  show "Outputs props =
           (if snd (scan (p0\<lparr>lexer := lx\<rparr>)) \<noteq> None
               \<or> snd (parseScreen (fst (scan (p0\<lparr>lexer := lx\<rparr>)))) \<noteq> None
            then []
            else completedOutputs n (fst (parseScreen (fst (scan (p0\<lparr>lexer := lx\<rparr>))))))"
    using assms outputsLoop_completed [of n _ "\<lparr>Outputs = []\<rparr>" props "Some e"]
    by (auto simp: ParseProps_def Let_def split: prod.splits if_splits)
  show "parseProps (ParseProps n p0) lx = Some (None, Some e)"
    using assms by (simp add: parseProps_def)
qed

theorem C3_witness:
  "ParseProps (Suc (Suc 0)) NewParser
     (tokens (screenHeader @ hdmiBlock @ [N ''DP-1'', SP, N ''connected'', LT]))
   = Some (\<lparr>Outputs = [newOutput\<lparr>Name := ''HDMI-1''\<rparr>]\<rparr>,
           Some (ErrorParsing ''output rotation and reflection key''
                  (UnexpectedToken
                     \<lparr>Type = TokenTypeLineTerminator, Literal = [CHR 0x0A], Line = 3, Column = 15\<rparr>
                     TokenTypePunctuator)))
   \<and> parseProps (ParseProps (Suc (Suc 0)) NewParser)
       (tokens (screenHeader @ hdmiBlock @ [N ''DP-1'', SP, N ''connected'', LT]))
     = Some (None,
           Some (ErrorParsing ''output rotation and reflection key''
                  (UnexpectedToken
                     \<lparr>Type = TokenTypeLineTerminator, Literal = [CHR 0x0A], Line = 3, Column = 15\<rparr>
                     TokenTypePunctuator)))"
proof -
  have h: "ParseProps (Suc (Suc 0)) NewParser
     (tokens (screenHeader @ hdmiBlock @ [N ''DP-1'', SP, N ''connected'', LT]))
   = Some (\<lparr>Outputs = [newOutput\<lparr>Name := ''HDMI-1''\<rparr>]\<rparr>,
           Some (ErrorParsing ''output rotation and reflection key''
                  (UnexpectedToken
                     \<lparr>Type = TokenTypeLineTerminator, Literal = [CHR 0x0A], Line = 3, Column = 15\<rparr>
                     TokenTypePunctuator)))"
    by (simp add: ev_lib ev_go)
  show ?thesis
    using h C3_outputs_beside_an_error [OF h] by blast
qed

text \<open>
  Claim C4.  The claim gives the parser two resolution shapes: with an optional trailing \<open>i\<close>
  for the current resolution, without it for a mode.  Each parser file has one
  \<open>resolutionPattern\<close> and one \<open>parseResolution\<close>, used for the current resolution and for the
  modes alike.  First the counterexample.  \<open>src/xrandr/parser.go\<close> does not take \<open>1920x1080i\<close>
  as a current resolution: the report with the block
  \<open>HDMI-1 connected 1920x1080i+0+0 (...)\<close> fails, since the name is left for the legend, and
  \<open>parseResolutionAndPosition\<close> leaves the output disabled.  \<open>src/unnamed/part_000\<close> takes
  \<open>1920x1080i\<close> as the resolution of a mode.
\<close>

theorem C4_counterexample:
  "ParseProps (Suc (Suc 0)) NewParser (tokens (screenHeader @ interlacedBlock))
     = Some (\<lparr>Outputs = []\<rparr>,
             Some (ErrorParsing ''output rotation and reflection key''
                    (UnexpectedToken
                       \<lparr>Type = TokenTypeName, Literal = ''1920x1080i'', Line = 2, Column = 18\<rparr>
                       TokenTypePunctuator)))
   \<and> (case parseResolutionAndPosition
             (startOn True [N ''1920x1080i'', P ''+'', I ''0'', P ''+'', I ''0'']) newOutput of
         (p, outp, err) \<Rightarrow> \<not> IsEnabled outp \<and> err = None \<and> Literal (token p) = ''1920x1080i'')
   \<and> map_option (\<lambda>(p, outp, err). (map ModeResolution (Modes outp), err))
        (parseModes_p0 (Suc (Suc 0)) (startOn_p0 [W ''   '', N ''1920x1080i'', LT]) newOutput)
      = Some ([\<lparr>Width = 1920, Height = 1080\<rparr>], None)"
  by (simp add: ev_lib ev_go ev_p0)

text \<open>What the two patterns accept, in the words of the specification.\<close>

lemma not_digit_x: "\<not> digit (CHR ''x'')" "\<not> digit (CHR ''i'')"
  by (simp_all add: digit_def)

lemma split_digits:
  assumes "list_all digit a" "\<not> digit c"
  shows "takeWhile digit (a @ c # r) = a" "dropWhile digit (a @ c # r) = c # r"
  using assms by (simp_all add: list_all_iff takeWhile_append2 dropWhile_append2)

lemma split_digits_end:
  assumes "list_all digit a"
  shows "takeWhile digit a = a" "dropWhile digit a = []"
  using assms by (simp_all add: list_all_iff)

lemma takeWhile_digits: "list_all digit (takeWhile digit s)"
  by (induction s) simp_all

lemma resolutionPattern_iff:
  "resolutionPattern s = Some (a, b) \<longleftrightarrow> resolutionShape False s a b"
proof
  assume h: "resolutionPattern s = Some (a, b)"
  obtain r' where r: "dropWhile digit s = CHR ''x'' # r'" and a: "a = takeWhile digit s" "a \<noteq> []"
    and b: "b = takeWhile digit r'" "b \<noteq> []" and t: "dropWhile digit r' = []"
    using h by (auto simp: resolutionPattern_def Let_def split: list.splits if_splits)
  have "s = a @ dropWhile digit s" using a by simp
  moreover have "r' = b @ dropWhile digit r'" using b by simp
  ultimately have "s = a @ ''x'' @ b" using r t by simp
  then show "resolutionShape False s a b"
    using a b takeWhile_digits by (simp add: resolutionShape_def)
next
  assume "resolutionShape False s a b"
  then have s: "s = a @ CHR ''x'' # b" and ab: "a \<noteq> []" "b \<noteq> []" "list_all digit a" "list_all digit b"
    by (simp_all add: resolutionShape_def)
  show "resolutionPattern s = Some (a, b)"
    using ab by (simp add: resolutionPattern_def s split_digits not_digit_x split_digits_end list_all_iff)
qed

lemma resolutionPattern_p0_iff:
  "resolutionPattern_p0 s = Some (a, b) \<longleftrightarrow> resolutionShape True s a b"
proof
  assume h: "resolutionPattern_p0 s = Some (a, b)"
  obtain r' where r: "dropWhile digit s = CHR ''x'' # r'" and a: "a = takeWhile digit s" "a \<noteq> []"
    and b: "b = takeWhile digit r'" "b \<noteq> []" and t: "dropWhile digit r' = [] \<or> dropWhile digit r' = ''i''"
    using h by (auto simp: resolutionPattern_p0_def Let_def split: list.splits if_splits)
  have "s = a @ dropWhile digit s" using a by simp
  moreover have "r' = b @ dropWhile digit r'" using b by simp
  ultimately have s: "s = a @ CHR ''x'' # b @ dropWhile digit r'" using r by simp
  have "s = a @ ''x'' @ b \<or> s = a @ ''x'' @ b @ ''i''"
    using t
  proof
    assume "dropWhile digit r' = []"
    with s show ?thesis by simp
  next
    assume "dropWhile digit r' = ''i''"
    with s show ?thesis by simp
  qed
  then show "resolutionShape True s a b"
    using a b takeWhile_digits by (auto simp add: resolutionShape_def)
next
  assume "resolutionShape True s a b"
  then have s: "s = a @ CHR ''x'' # b \<or> s = a @ CHR ''x'' # (b @ ''i'')" and ab: "a \<noteq> []" "b \<noteq> []" "list_all digit a" "list_all digit b"
    by (auto simp add: resolutionShape_def)
  from s show "resolutionPattern_p0 s = Some (a, b)"
  proof
    assume "s = a @ CHR ''x'' # b"
    then show ?thesis
      using ab by (simp add: resolutionPattern_p0_def split_digits not_digit_x split_digits_end list_all_iff)
  next
    assume "s = a @ CHR ''x'' # (b @ ''i'')"
    then show ?thesis
      using ab split_digits[of b "CHR ''i''" "[]"]
      by (simp add: resolutionPattern_p0_def split_digits not_digit_x list_all_iff)
  qed
qed

lemma ParseUint_ok: "(\<exists>v. ParseUint s = Inr v) \<longleftrightarrow> s \<noteq> [] \<and> list_all digit s \<and> dec s < 2 ^ 64"
  by (auto simp: ParseUint_def)

lemma parseResolution_accepts:
  "fst (parseResolution s) \<longleftrightarrow> (\<exists>a b. resolutionShape False s a b \<and> dec a < 2 ^ 64 \<and> dec b < 2 ^ 64)"
proof
  assume "fst (parseResolution s)"
  then obtain a b where "resolutionPattern s = Some (a, b)" "dec a < 2 ^ 64" "dec b < 2 ^ 64"
    by (auto simp: parseResolution_def ParseUint_def Let_def split: option.splits sum.splits if_splits)
  then show "\<exists>a b. resolutionShape False s a b \<and> dec a < 2 ^ 64 \<and> dec b < 2 ^ 64"
    using resolutionPattern_iff by blast
next
  assume "\<exists>a b. resolutionShape False s a b \<and> dec a < 2 ^ 64 \<and> dec b < 2 ^ 64"
  then obtain a b where h: "resolutionShape False s a b" "dec a < 2 ^ 64" "dec b < 2 ^ 64" by blast
  then have "resolutionPattern s = Some (a, b)" using resolutionPattern_iff by blast
  moreover have "a \<noteq> []" "b \<noteq> []" "list_all digit a" "list_all digit b"
    using h(1) by (simp_all add: resolutionShape_def)
  ultimately show "fst (parseResolution s)"
    using h by (simp add: parseResolution_def ParseUint_def Let_def)
qed

lemma parseResolution_p0_accepts:
  "fst (parseResolution_p0 s) \<longleftrightarrow> (\<exists>a b. resolutionShape True s a b \<and> dec a < 2 ^ 64 \<and> dec b < 2 ^ 64)"
proof
  assume "fst (parseResolution_p0 s)"
  then obtain a b where "resolutionPattern_p0 s = Some (a, b)" "dec a < 2 ^ 64" "dec b < 2 ^ 64"
    by (auto simp: parseResolution_p0_def ParseUint_def Let_def split: option.splits sum.splits if_splits)
  then show "\<exists>a b. resolutionShape True s a b \<and> dec a < 2 ^ 64 \<and> dec b < 2 ^ 64"
    using resolutionPattern_p0_iff by blast
next
  assume "\<exists>a b. resolutionShape True s a b \<and> dec a < 2 ^ 64 \<and> dec b < 2 ^ 64"
  then obtain a b where h: "resolutionShape True s a b" "dec a < 2 ^ 64" "dec b < 2 ^ 64" by blast
  then have "resolutionPattern_p0 s = Some (a, b)" using resolutionPattern_p0_iff by blast
  moreover have "a \<noteq> []" "b \<noteq> []" "list_all digit a" "list_all digit b"
    using h(1) by (simp_all add: resolutionShape_def)
  ultimately show "fst (parseResolution_p0 s)"
    using h by (simp add: parseResolution_p0_def ParseUint_def Let_def)
qed

text \<open>Where the current resolution is read, the output is enabled when the pattern matches.\<close>

lemma enabled_go:
  "IsEnabled (fst (snd (parseResolutionAndPosition p output))) \<longleftrightarrow>
     IsEnabled output \<or> (Type (token p) = TokenTypeName \<and> fst (parseResolution (Literal (token p))))"
  by (auto simp: parseResolutionAndPosition_def Let_def split: prod.splits sum.splits if_splits)

lemma enabled_p0:
  "IsEnabled (fst (snd (parseResolutionAndPosition_p0 p output))) \<longleftrightarrow>
     IsEnabled output \<or> (Type (token p) = TokenTypeName \<and> fst (parseResolution_p0 (Literal (token p))))"
  by (auto simp: parseResolutionAndPosition_p0_def next_p0_def Let_def split: prod.splits sum.splits if_splits option.splits)

text \<open>
  How far the lexer is read: \<open>scan\<close> moves on, and at the end of the input it leaves the
  end-of-input token.
\<close>

lemma scan_length:
  "scan p = (p', e) \<Longrightarrow>
     length (lexer p') \<le> length (lexer p)
     \<and> (lexer p \<noteq> [] \<longrightarrow> length (lexer p') < length (lexer p))
     \<and> (lexer p = [] \<longrightarrow> token p' = eofToken)"
proof (induction p arbitrary: p' e rule: scan.induct)
  case (1 p)
  obtain tok err lx where s: "Scan (lexer p) = ((tok, err), lx)"
    by (metis prod.exhaust)
  let ?q = "p\<lparr>token := tok, lexer := lx\<rparr>"
  have q: "length lx \<le> length (lexer p)" "lexer p \<noteq> [] \<longrightarrow> length lx < length (lexer p)"
    "lexer p = [] \<longrightarrow> tok = eofToken \<and> lx = []"
    using s by (auto simp: Scan_def split: list.splits)
  show ?case
  proof (cases "err = None \<and> skipWS ?q \<and> Type (token ?q) = TokenTypeWhiteSpace")
    case True
    then have "scan p = scan ?q"
      using s by (subst scan.simps) (simp add: Let_def)
    then have r: "scan ?q = (p', e)"
      using "1.prems"(1) by simp
    have ne: "lexer p \<noteq> []"
      using True q(3) by (auto simp: eofToken_def)
    have "length (lexer p') \<le> length (lexer ?q)"
      using "1.IH" [OF s [symmetric] refl refl _ _ r] True by blast
    then show ?thesis using q ne by auto
  next
    case False
    then have "scan p = (?q, err)"
      using s by (subst scan.simps) (auto simp: Let_def)
    then show ?thesis using q "1.prems"(1) by auto
  qed
qed

lemma scan_le: "scan p = (p', e) \<Longrightarrow> length (lexer p') \<le> length (lexer p)"
  using scan_length by blast

lemma optscan_le:
  "(if c then (case scan p of (p2, e2) \<Rightarrow> (p2, True, e2)) else (p, False, None)) = (p', b, e)
     \<Longrightarrow> length (lexer p') \<le> length (lexer p)"
  by (auto split: if_splits prod.splits dest: scan_le)


lemma ratesLoop_length:
  "ratesLoop n p rates = Some (p', rates', e) \<Longrightarrow> length (lexer p') \<le> length (lexer p)"
proof (induction n arbitrary: p rates)
  case 0
  then show ?case by simp
next
  case (Suc n)
  show ?case
  proof (cases "Type (token p) \<noteq> TokenTypeFloatValue")
    case True
    then show ?thesis using Suc.prems by simp
  next
    case False
    show ?thesis
    proof (cases "ParseFloat (Literal (token p))")
      case (Inl err)
      then show ?thesis using Suc.prems False by simp
    next
      case (Inr r)
      obtain p1 e1 where s1: "scan p = (p1, e1)" by (metis prod.exhaust)
      obtain p2 cur e2 where s2:
        "(if Type (token p1) = TokenTypePunctuator \<and> Literal (token p1) = ''*''
          then (case scan p1 of (p2, e2) \<Rightarrow> (p2, True, e2)) else (p1, False, None)) = (p2, cur, e2)"
        by (metis prod_cases3)
      obtain p3 pref e3 where s3:
        "(if Type (token p2) = TokenTypePunctuator \<and> Literal (token p2) = ''+''
          then (case scan p2 of (p3, e3) \<Rightarrow> (p3, True, e3)) else (p2, False, None)) = (p3, pref, e3)"
        by (metis prod_cases3)
      have l1: "length (lexer p1) \<le> length (lexer p)" using scan_le [OF s1] .
      have l2: "length (lexer p2) \<le> length (lexer p1)" using optscan_le [OF s2] .
      have l3: "length (lexer p3) \<le> length (lexer p2)" using optscan_le [OF s3] .
      have eq: "ratesLoop (Suc n) p rates =
        (if e1 \<noteq> None then Some (p1, rates, e1)
         else if e2 \<noteq> None then Some (p2, rates, e2)
         else if e3 \<noteq> None then Some (p3, rates, e3)
         else ratesLoop n p3 (rates @ [\<lparr>Rate = r, IsCurrent = cur, IsPreferred = pref\<rparr>]))"
        using False Inr s1 s2 s3 by simp
      show ?thesis
      proof (cases "e1 = None \<and> e2 = None \<and> e3 = None")
        case True
        then have "ratesLoop n p3 (rates @ [\<lparr>Rate = r, IsCurrent = cur, IsPreferred = pref\<rparr>])
                     = Some (p', rates', e)"
          using Suc.prems eq by simp
        then have "length (lexer p') \<le> length (lexer p3)" using Suc.IH by blast
        then show ?thesis using l1 l2 l3 by simp
      next
        case False
        then have "p' = p1 \<or> p' = p2 \<or> p' = p3"
          using Suc.prems eq by (auto split: if_splits)
        then show ?thesis using l1 l2 l3 by auto
      qed
    qed
  qed
qed

lemma modesLoop_appends:
  "modesLoop n p outp = Some (p', outp', e) \<Longrightarrow> \<exists>xs. Modes outp' = Modes outp @ xs"
proof (induction n arbitrary: p outp)
  case 0
  then show ?case by simp
next
  case (Suc n)
  show ?case
  proof (cases "Type (token p) = TokenTypeName \<and> fst (parseResolution (Literal (token p)))")
    case False
    then show ?thesis
      using Suc.prems by (auto split: prod.splits if_splits)
  next
    case True
    obtain res where res: "parseResolution (Literal (token p)) = (True, res)"
      using True by (cases "parseResolution (Literal (token p))") auto
    obtain p1 e1 where s1: "scan p = (p1, e1)" by (metis prod.exhaust)
    show ?thesis
    proof (cases "e1 = None")
      case False
      then show ?thesis using Suc.prems True res s1 by auto
    next
      case e1: True
      then obtain p2 rates e2 where r: "ratesLoop n p1 [] = Some (p2, rates, e2)"
        using Suc.prems True res s1 by (auto split: option.splits)
      show ?thesis
      proof (cases "e2 = None")
        case False
        then show ?thesis using Suc.prems True res s1 e1 r by auto
      next
        case e2: True
        then have "modesLoop n p2 (outp\<lparr>Modes := Modes outp @ [\<lparr>ModeResolution = res, Rates = rates\<rparr>]\<rparr>)
                     = Some (p', outp', e)"
          using Suc.prems True res s1 e1 r by simp
        then obtain xs where "Modes outp' = (Modes outp @ [\<lparr>ModeResolution = res, Rates = rates\<rparr>]) @ xs"
          using Suc.IH by fastforce
        then show ?thesis by simp
      qed
    qed
  qed
qed

text \<open>go: a name that the pattern accepts is read as the resolution of a mode.\<close>

lemma modesLoop_accepts:
  assumes "Type (token p) = TokenTypeName" "fst (parseResolution (Literal (token p)))"
  shows "modesLoop (Suc n) p outp \<noteq> Some (p, outp, Some (ExpectedResolution (Literal (token p))))"
    and "modesLoop (Suc n) p outp = Some (p', outp', None) \<Longrightarrow>
           \<exists>rates rest. Modes outp' = Modes outp
              @ \<lparr>ModeResolution = snd (parseResolution (Literal (token p))), Rates = rates\<rparr> # rest"
proof -
  obtain res where res: "parseResolution (Literal (token p)) = (True, res)"
    using assms(2) by (cases "parseResolution (Literal (token p))") auto
  obtain p1 e1 where s1: "scan p = (p1, e1)" by (metis prod.exhaust)
  have eq: "modesLoop (Suc n) p outp =
      (if e1 \<noteq> None then Some (p1, outp, e1)
       else case ratesLoop n p1 [] of
              None \<Rightarrow> None
            | Some (p2, rates, e2) \<Rightarrow>
                if e2 \<noteq> None then Some (p2, outp, e2)
                else modesLoop n p2 (outp\<lparr>Modes := Modes outp @ [\<lparr>ModeResolution = res, Rates = rates\<rparr>]\<rparr>))"
    using assms(1) res s1 by simp
  have ne1: "p1 \<noteq> p"
  proof (cases "lexer p = []")
    case True
    then have "token p1 = eofToken" using scan_length [OF s1] by simp
    then show ?thesis using assms(1) by (auto simp: eofToken_def)
  next
    case False
    then have "length (lexer p1) < length (lexer p)" using scan_length [OF s1] by simp
    then show ?thesis by auto
  qed
  have ne2: "p2 \<noteq> p" if "ratesLoop n p1 [] = Some (p2, rates, e2)" for p2 rates e2
  proof (cases "lexer p = []")
    case True
    then have t: "token p1 = eofToken" using scan_length [OF s1] by simp
    then have "ratesLoop n p1 [] = Some (p1, [], None) \<or> ratesLoop n p1 [] = None"
      by (cases n) (simp_all add: eofToken_def)
    then have "p2 = p1" using that by auto
    then show ?thesis using ne1 by simp
  next
    case False
    then have "length (lexer p1) < length (lexer p)" using scan_length [OF s1] by simp
    moreover have "length (lexer p2) \<le> length (lexer p1)" using ratesLoop_length [OF that] .
    ultimately show ?thesis by auto
  qed
  show "modesLoop (Suc n) p outp \<noteq> Some (p, outp, Some (ExpectedResolution (Literal (token p))))"
  proof
    assume h: "modesLoop (Suc n) p outp = Some (p, outp, Some (ExpectedResolution (Literal (token p))))"
    show False
    proof (cases "e1 = None")
      case False
      then show False using h eq ne1 by simp
    next
      case e1: True
      then obtain p2 rates e2 where r: "ratesLoop n p1 [] = Some (p2, rates, e2)"
        using h eq by (auto split: option.splits)
      show False
      proof (cases "e2 = None")
        case False
        then show False using h eq e1 r ne2 [OF r] by simp
      next
        case True
        then have "modesLoop n p2 (outp\<lparr>Modes := Modes outp @ [\<lparr>ModeResolution = res, Rates = rates\<rparr>]\<rparr>)
                     = Some (p, outp, Some (ExpectedResolution (Literal (token p))))"
          using h eq e1 r by simp
        then obtain xs where "Modes outp = (Modes outp @ [\<lparr>ModeResolution = res, Rates = rates\<rparr>]) @ xs"
          using modesLoop_appends by fastforce
        then show False by simp
      qed
    qed
  qed
  show "\<exists>rates rest. Modes outp' = Modes outp
              @ \<lparr>ModeResolution = snd (parseResolution (Literal (token p))), Rates = rates\<rparr> # rest"
    if h: "modesLoop (Suc n) p outp = Some (p', outp', None)"
  proof -
    have e1: "e1 = None" using h eq by (auto split: if_splits)
    then obtain p2 rates e2 where r: "ratesLoop n p1 [] = Some (p2, rates, e2)"
      using h eq by (auto split: option.splits)
    have e2: "e2 = None" using h eq e1 r by (auto split: if_splits)
    then have "modesLoop n p2 (outp\<lparr>Modes := Modes outp @ [\<lparr>ModeResolution = res, Rates = rates\<rparr>]\<rparr>)
                     = Some (p', outp', None)"
      using h eq e1 r by simp
    then obtain xs where "Modes outp' = (Modes outp @ [\<lparr>ModeResolution = res, Rates = rates\<rparr>]) @ xs"
      using modesLoop_appends by fastforce
    then show ?thesis using res by auto
  qed
qed


lemma modesLoop_p0_appends:
  "modesLoop_p0 n p outp = Some (p', outp', e) \<Longrightarrow> \<exists>xs. Modes outp' = Modes outp @ xs"
proof (induction n arbitrary: p outp)
  case 0
  then show ?case by simp
next
  case (Suc n)
  show ?case
  proof (cases "Type (token p) = TokenTypeName \<and> fst (parseResolution_p0 (Literal (token p)))")
    case False
    then show ?thesis
      using Suc.prems by (auto split: prod.splits if_splits)
  next
    case True
    obtain res where res: "parseResolution_p0 (Literal (token p)) = (True, res)"
      using True by (cases "parseResolution_p0 (Literal (token p))") auto
    obtain p2 rates e2 where r: "ratesLoop_p0 n (scan_p0 p) [] = Some (p2, rates, e2)"
      using Suc.prems True res by (auto split: option.splits)
    show ?thesis
    proof (cases "e2 = None")
      case False
      then show ?thesis using Suc.prems True res r by auto
    next
      case e2: True
      then have "modesLoop_p0 n (fst (skip_p0 TokenTypeLineTerminator [] p2))
                   (outp\<lparr>Modes := Modes outp @ [\<lparr>ModeResolution = res, Rates = rates\<rparr>]\<rparr>)
                     = Some (p', outp', e)"
        using Suc.prems True res r by simp
      then obtain xs where "Modes outp' = (Modes outp @ [\<lparr>ModeResolution = res, Rates = rates\<rparr>]) @ xs"
        using Suc.IH by fastforce
      then show ?thesis by simp
    qed
  qed
qed

lemma modesLoop_p0_accepts:
  assumes "Type (token p) = TokenTypeName" "fst (parseResolution_p0 (Literal (token p)))"
  shows "modesLoop_p0 (Suc n) p outp \<noteq> Some (p, outp, None)"
    and "modesLoop_p0 (Suc n) p outp = Some (p', outp', None) \<Longrightarrow>
           \<exists>rates rest. Modes outp' = Modes outp
              @ \<lparr>ModeResolution = snd (parseResolution_p0 (Literal (token p))), Rates = rates\<rparr> # rest"
proof -
  obtain res where res: "parseResolution_p0 (Literal (token p)) = (True, res)"
    using assms(2) by (cases "parseResolution_p0 (Literal (token p))") auto
  have eq: "modesLoop_p0 (Suc n) p outp =
      (case ratesLoop_p0 n (scan_p0 p) [] of
         None \<Rightarrow> None
       | Some (p2, rates, e2) \<Rightarrow>
           if e2 \<noteq> None then Some (p2, outp, e2)
           else modesLoop_p0 n (fst (skip_p0 TokenTypeLineTerminator [] p2))
                  (outp\<lparr>Modes := Modes outp @ [\<lparr>ModeResolution = res, Rates = rates\<rparr>]\<rparr>))"
    using assms(1) res by simp
  have grow: "\<exists>rates rest. Modes o' = Modes outp @ \<lparr>ModeResolution = res, Rates = rates\<rparr> # rest"
    if h: "modesLoop_p0 (Suc n) p outp = Some (q', o', None)" for q' o'
  proof -
    obtain p2 rates e2 where r: "ratesLoop_p0 n (scan_p0 p) [] = Some (p2, rates, e2)"
      using h eq by (auto split: option.splits)
    have e2: "e2 = None" using h eq r by (auto split: if_splits)
    then have "modesLoop_p0 n (fst (skip_p0 TokenTypeLineTerminator [] p2))
                  (outp\<lparr>Modes := Modes outp @ [\<lparr>ModeResolution = res, Rates = rates\<rparr>]\<rparr>)
                     = Some (q', o', None)"
      using h eq r by simp
    then obtain xs where "Modes o' = (Modes outp @ [\<lparr>ModeResolution = res, Rates = rates\<rparr>]) @ xs"
      using modesLoop_p0_appends by fastforce
    then show ?thesis by auto
  qed
  show "modesLoop_p0 (Suc n) p outp \<noteq> Some (p, outp, None)"
  proof
    assume "modesLoop_p0 (Suc n) p outp = Some (p, outp, None)"
    then obtain rates rest where
      "Modes outp = Modes outp @ \<lparr>ModeResolution = res, Rates = rates\<rparr> # rest"
      using grow by blast
    then show False by simp
  qed
  show "\<exists>rates rest. Modes outp' = Modes outp
              @ \<lparr>ModeResolution = snd (parseResolution_p0 (Literal (token p))), Rates = rates\<rparr> # rest"
    if "modesLoop_p0 (Suc n) p outp = Some (p', outp', None)"
    using grow [OF that] res by simp
qed

text \<open>
  Claim C4, amended: each parser has one resolution pattern for both uses.
  \<open>parseResolution\<close> of \<open>src/xrandr/parser.go\<close> accepts exactly digits, \<open>x\<close>, digits, and
  that of \<open>src/unnamed/part_000\<close> exactly digits, \<open>x\<close>, digits and an optional \<open>i\<close>, in both
  cases with both numbers below \<open>2^64\<close>.  A name is taken as the current resolution (the
  output becomes enabled) exactly when \<open>parseResolution\<close> of the same file accepts it.  In the
  loop over the mode lines a name is turned down (with the error \<open>expected resolution\<close> in
  \<open>src/xrandr/parser.go\<close>, with a plain return in \<open>src/unnamed/part_000\<close>) exactly when
  \<open>parseResolution\<close> of the same file does not accept it; when it is accepted and the loop
  returns without an error, a mode with that resolution has been appended.
\<close>

theorem C4_one_pattern_for_both_uses:
  "(fst (parseResolution s) \<longleftrightarrow>
      (\<exists>a b. resolutionShape False s a b \<and> dec a < 2 ^ 64 \<and> dec b < 2 ^ 64))
   \<and> (fst (parseResolution_p0 s) \<longleftrightarrow>
      (\<exists>a b. resolutionShape True s a b \<and> dec a < 2 ^ 64 \<and> dec b < 2 ^ 64))
   \<and> (IsEnabled (fst (snd (parseResolutionAndPosition p outp))) \<longleftrightarrow>
        IsEnabled outp
        \<or> (Type (token p) = TokenTypeName \<and> fst (parseResolution (Literal (token p)))))
   \<and> (IsEnabled (fst (snd (parseResolutionAndPosition_p0 p outp))) \<longleftrightarrow>
        IsEnabled outp
        \<or> (Type (token p) = TokenTypeName \<and> fst (parseResolution_p0 (Literal (token p)))))
   \<and> (Type (token p) = TokenTypeName \<longrightarrow>
        (modesLoop (Suc n) p outp
           = Some (p, outp, Some (ExpectedResolution (Literal (token p))))
         \<longleftrightarrow> \<not> fst (parseResolution (Literal (token p))))
        \<and> (fst (parseResolution (Literal (token p)))
             \<and> modesLoop (Suc n) p outp = Some (p', outp', None) \<longrightarrow>
            (\<exists>rates rest. Modes outp' = Modes outp
               @ \<lparr>ModeResolution = snd (parseResolution (Literal (token p))), Rates = rates\<rparr>
                 # rest)))
   \<and> (Type (token p) = TokenTypeName \<longrightarrow>
        (modesLoop_p0 (Suc n) p outp = Some (p, outp, None)
         \<longleftrightarrow> \<not> fst (parseResolution_p0 (Literal (token p))))
        \<and> (fst (parseResolution_p0 (Literal (token p)))
             \<and> modesLoop_p0 (Suc n) p outp = Some (p', outp', None) \<longrightarrow>
            (\<exists>rates rest. Modes outp' = Modes outp
               @ \<lparr>ModeResolution = snd (parseResolution_p0 (Literal (token p))), Rates = rates\<rparr>
                 # rest)))"
proof (intro conjI)
  show "fst (parseResolution s) \<longleftrightarrow>
      (\<exists>a b. resolutionShape False s a b \<and> dec a < 2 ^ 64 \<and> dec b < 2 ^ 64)"
    by (rule parseResolution_accepts)
  show "fst (parseResolution_p0 s) \<longleftrightarrow>
      (\<exists>a b. resolutionShape True s a b \<and> dec a < 2 ^ 64 \<and> dec b < 2 ^ 64)"
    by (rule parseResolution_p0_accepts)
  show "IsEnabled (fst (snd (parseResolutionAndPosition p outp))) \<longleftrightarrow>
        IsEnabled outp
        \<or> (Type (token p) = TokenTypeName \<and> fst (parseResolution (Literal (token p))))"
    by (rule enabled_go)
  show "IsEnabled (fst (snd (parseResolutionAndPosition_p0 p outp))) \<longleftrightarrow>
        IsEnabled outp
        \<or> (Type (token p) = TokenTypeName \<and> fst (parseResolution_p0 (Literal (token p))))"
    by (rule enabled_p0)
  show "Type (token p) = TokenTypeName \<longrightarrow>
        (modesLoop (Suc n) p outp
           = Some (p, outp, Some (ExpectedResolution (Literal (token p))))
         \<longleftrightarrow> \<not> fst (parseResolution (Literal (token p))))
        \<and> (fst (parseResolution (Literal (token p)))
             \<and> modesLoop (Suc n) p outp = Some (p', outp', None) \<longrightarrow>
            (\<exists>rates rest. Modes outp' = Modes outp
               @ \<lparr>ModeResolution = snd (parseResolution (Literal (token p))), Rates = rates\<rparr>
                 # rest))"
  proof (intro impI conjI iffI)
    assume t: "Type (token p) = TokenTypeName"
    {
      assume "modesLoop (Suc n) p outp
           = Some (p, outp, Some (ExpectedResolution (Literal (token p))))"
      then show "\<not> fst (parseResolution (Literal (token p)))"
        using modesLoop_accepts(1) [OF t] by blast
    next
      assume "\<not> fst (parseResolution (Literal (token p)))"
      then show "modesLoop (Suc n) p outp
           = Some (p, outp, Some (ExpectedResolution (Literal (token p))))"
        using t by (auto split: prod.splits)
    next
      assume "fst (parseResolution (Literal (token p)))
             \<and> modesLoop (Suc n) p outp = Some (p', outp', None)"
      then show "\<exists>rates rest. Modes outp' = Modes outp
               @ \<lparr>ModeResolution = snd (parseResolution (Literal (token p))), Rates = rates\<rparr>
                 # rest"
        using modesLoop_accepts(2) [OF t] by blast
    }
  qed
  show "Type (token p) = TokenTypeName \<longrightarrow>
        (modesLoop_p0 (Suc n) p outp = Some (p, outp, None)
         \<longleftrightarrow> \<not> fst (parseResolution_p0 (Literal (token p))))
        \<and> (fst (parseResolution_p0 (Literal (token p)))
             \<and> modesLoop_p0 (Suc n) p outp = Some (p', outp', None) \<longrightarrow>
            (\<exists>rates rest. Modes outp' = Modes outp
               @ \<lparr>ModeResolution = snd (parseResolution_p0 (Literal (token p))), Rates = rates\<rparr>
                 # rest))"
  proof (intro impI conjI iffI)
    assume t: "Type (token p) = TokenTypeName"
    {
      assume "modesLoop_p0 (Suc n) p outp = Some (p, outp, None)"
      then show "\<not> fst (parseResolution_p0 (Literal (token p)))"
        using modesLoop_p0_accepts(1) [OF t] by blast
    next
      assume "\<not> fst (parseResolution_p0 (Literal (token p)))"
      then show "modesLoop_p0 (Suc n) p outp = Some (p, outp, None)"
        using t by (auto split: prod.splits)
    next
      assume "fst (parseResolution_p0 (Literal (token p)))
             \<and> modesLoop_p0 (Suc n) p outp = Some (p', outp', None)"
      then show "\<exists>rates rest. Modes outp' = Modes outp
               @ \<lparr>ModeResolution = snd (parseResolution_p0 (Literal (token p))), Rates = rates\<rparr>
                 # rest"
        using modesLoop_p0_accepts(2) [OF t] by blast
    }
  qed
qed

theorem C4_witness:
  "Type (token (startOn True [N ''1920x1080'', F ''60.00'', LT])) = TokenTypeName
   \<and> fst (parseResolution (Literal (token (startOn True [N ''1920x1080'', F ''60.00'', LT]))))
   \<and> fst (parseResolution_p0 (Literal (token (startOn True [N ''1920x1080'', F ''60.00'', LT]))))
   \<and> modesLoop (Suc (Suc (Suc 0))) (startOn True [N ''1920x1080'', F ''60.00'', LT]) newOutput
       = Some (\<lparr>lexer = [],
                token = \<lparr>Type = TokenTypeLineTerminator, Literal = [CHR 0x0A], Line = 1,
                         Column = 15\<rparr>,
                skipWS = True\<rparr>,
               newOutput\<lparr>Modes :=
                 [\<lparr>ModeResolution = \<lparr>Width = 1920, Height = 1080\<rparr>,
                   Rates = [\<lparr>Rate = (6000, 2), IsCurrent = False, IsPreferred = False\<rparr>]\<rparr>]\<rparr>,
               None)
   \<and> modesLoop_p0 (Suc (Suc (Suc 0))) (startOn True [N ''1920x1080'', F ''60.00'', LT]) newOutput
       = Some (\<lparr>lexer = [], token = eofToken, skipWS = True\<rparr>,
               newOutput\<lparr>Modes :=
                 [\<lparr>ModeResolution = \<lparr>Width = 1920, Height = 1080\<rparr>,
                   Rates = [\<lparr>Rate = (6000, 2), IsCurrent = False, IsPreferred = False\<rparr>]\<rparr>]\<rparr>,
               None)
   \<and> modesLoop (Suc (Suc (Suc 0))) (startOn True [N ''1920x1080'', F ''60.00'', LT]) newOutput
       \<noteq> Some (startOn True [N ''1920x1080'', F ''60.00'', LT], newOutput,
               Some (ExpectedResolution
                       (Literal (token (startOn True [N ''1920x1080'', F ''60.00'', LT])))))
   \<and> modesLoop_p0 (Suc (Suc (Suc 0))) (startOn True [N ''1920x1080'', F ''60.00'', LT]) newOutput
       \<noteq> Some (startOn True [N ''1920x1080'', F ''60.00'', LT], newOutput, None)
   \<and> IsEnabled (fst (snd (parseResolutionAndPosition
                             (startOn True [N ''1920x1080'', F ''60.00'', LT]) newOutput)))
   \<and> IsEnabled (fst (snd (parseResolutionAndPosition_p0
                             (startOn True [N ''1920x1080'', F ''60.00'', LT]) newOutput)))"
proof -
  have t: "Type (token (startOn True [N ''1920x1080'', F ''60.00'', LT])) = TokenTypeName"
    by (simp add: ev_lib ev_go)
  have a: "fst (parseResolution (Literal (token (startOn True [N ''1920x1080'', F ''60.00'', LT]))))"
    by (simp add: ev_lib ev_go)
  have a0: "fst (parseResolution_p0
                  (Literal (token (startOn True [N ''1920x1080'', F ''60.00'', LT]))))"
    by (simp add: ev_lib ev_go ev_p0)
  have g: "modesLoop (Suc (Suc (Suc 0))) (startOn True [N ''1920x1080'', F ''60.00'', LT]) newOutput
       = Some (\<lparr>lexer = [],
                token = \<lparr>Type = TokenTypeLineTerminator, Literal = [CHR 0x0A], Line = 1,
                         Column = 15\<rparr>,
                skipWS = True\<rparr>,
               newOutput\<lparr>Modes :=
                 [\<lparr>ModeResolution = \<lparr>Width = 1920, Height = 1080\<rparr>,
                   Rates = [\<lparr>Rate = (6000, 2), IsCurrent = False, IsPreferred = False\<rparr>]\<rparr>]\<rparr>,
               None)"
    by (simp add: ev_lib ev_go)
  have g0: "modesLoop_p0 (Suc (Suc (Suc 0))) (startOn True [N ''1920x1080'', F ''60.00'', LT]) newOutput
       = Some (\<lparr>lexer = [], token = eofToken, skipWS = True\<rparr>,
               newOutput\<lparr>Modes :=
                 [\<lparr>ModeResolution = \<lparr>Width = 1920, Height = 1080\<rparr>,
                   Rates = [\<lparr>Rate = (6000, 2), IsCurrent = False, IsPreferred = False\<rparr>]\<rparr>]\<rparr>,
               None)"
    by (simp add: ev_lib ev_go ev_p0)
  note th = C4_one_pattern_for_both_uses
              [of "''1920x1080''" "startOn True [N ''1920x1080'', F ''60.00'', LT]" newOutput
                  "Suc (Suc 0)"
                  "\<lparr>lexer = [],
                    token = \<lparr>Type = TokenTypeLineTerminator, Literal = [CHR 0x0A], Line = 1,
                             Column = 15\<rparr>,
                    skipWS = True\<rparr>"
                  "newOutput\<lparr>Modes :=
                     [\<lparr>ModeResolution = \<lparr>Width = 1920, Height = 1080\<rparr>,
                       Rates = [\<lparr>Rate = (6000, 2), IsCurrent = False, IsPreferred = False\<rparr>]\<rparr>]\<rparr>"]
  note th0 = C4_one_pattern_for_both_uses
              [of "''1920x1080''" "startOn True [N ''1920x1080'', F ''60.00'', LT]" newOutput
                  "Suc (Suc 0)"
                  "\<lparr>lexer = [], token = eofToken, skipWS = True\<rparr>"
                  "newOutput\<lparr>Modes :=
                     [\<lparr>ModeResolution = \<lparr>Width = 1920, Height = 1080\<rparr>,
                       Rates = [\<lparr>Rate = (6000, 2), IsCurrent = False, IsPreferred = False\<rparr>]\<rparr>]\<rparr>"]
  show ?thesis
    using t a a0 g g0 th th0 by blast
qed

text \<open>
  Claim C5.  The mode line \<open>1920x1080i     60.00*+  59.94  \<close> should give one mode with two
  rates.  In \<open>src/xrandr/parser.go\<close> the whole report fails (the property line is never read
  as one), and \<open>parseModes\<close>, started on the line itself, answers \<open>expected resolution\<close>.  In
  \<open>src/unnamed/part_000\<close> \<open>parseModes\<close> takes the resolution and then stops at the whitespace,
  which \<open>scan\<close> no longer skips: one mode and no rate; the whole report fails in the header.
\<close>

theorem C5_mode_line_fails:
  "ParseProps (Suc (Suc n)) NewParser (tokens (screenHeader @ modeBlock)) =
     Some (\<lparr>Outputs = [newOutput\<lparr>Name := ''HDMI-1''\<rparr>]\<rparr>,
           Some (ErrorParsing ''output rotation and reflection key''
                  (UnexpectedToken
                     \<lparr>Type = TokenTypeFloatValue, Literal = ''1.0'', Line = 3, Column = 14\<rparr>
                     TokenTypePunctuator)))
   \<and> map_option (\<lambda>(p, output, err). (Modes output, err))
        (parseModes (Suc (Suc n)) (startOn False modeLine) newOutput)
      = Some ([], Some (ExpectedResolution ''1920x1080i''))
   \<and> map_option (\<lambda>(p, output, err). (Modes output, err))
        (parseModes_p0 (Suc (Suc n)) (startOn_p0 modeLine) newOutput)
      = Some ([\<lparr>ModeResolution = \<lparr>Width = 1920, Height = 1080\<rparr>, Rates = []\<rparr>], None)
   \<and> (\<exists>e. ParseProps_p0 m NewParser (tokens (screenHeader @ modeBlock))
             = Some (\<lparr>Outputs = []\<rparr>, Some e))"
proof (intro conjI)
  show "ParseProps (Suc (Suc n)) NewParser (tokens (screenHeader @ modeBlock)) =
     Some (\<lparr>Outputs = [newOutput\<lparr>Name := ''HDMI-1''\<rparr>]\<rparr>,
           Some (ErrorParsing ''output rotation and reflection key''
                  (UnexpectedToken
                     \<lparr>Type = TokenTypeFloatValue, Literal = ''1.0'', Line = 3, Column = 14\<rparr>
                     TokenTypePunctuator)))"
    by (simp add: ev_lib ev_go)
  show "map_option (\<lambda>(p, output, err). (Modes output, err))
        (parseModes (Suc (Suc n)) (startOn False modeLine) newOutput)
      = Some ([], Some (ExpectedResolution ''1920x1080i''))"
    by (simp add: ev_lib ev_go)
  show "map_option (\<lambda>(p, output, err). (Modes output, err))
        (parseModes_p0 (Suc (Suc n)) (startOn_p0 modeLine) newOutput)
      = Some ([\<lparr>ModeResolution = \<lparr>Width = 1920, Height = 1080\<rparr>, Rates = []\<rparr>], None)"
    by (simp add: ev_lib ev_p0)
  show "\<exists>e. ParseProps_p0 m NewParser (tokens (screenHeader @ modeBlock))
             = Some (\<lparr>Outputs = []\<rparr>, Some e)"
    by (rule ParseProps_p0_fails)
qed

text \<open>
  Without the \<open>i\<close>, \<open>parseModes\<close> of \<open>src/xrandr/parser.go\<close>, started on the line, reads the
  mode and its two rates.
\<close>

lemma parseModes_line_without_suffix:
  "map_option (\<lambda>(p, output, err). (Modes output, err))
     (parseModes (Suc (Suc (Suc (Suc n))))
        (startOn False [W ''   '', N ''1920x1080'', W ''     '', F ''60.00'', P ''*'', P ''+'',
                        W ''  '', F ''59.94'', W ''  '', LT])
        newOutput)
   = Some ([\<lparr>ModeResolution = \<lparr>Width = 1920, Height = 1080\<rparr>,
             Rates = [\<lparr>Rate = (6000, 2), IsCurrent = True, IsPreferred = True\<rparr>,
                      \<lparr>Rate = (5994, 2), IsCurrent = False, IsPreferred = False\<rparr>]\<rparr>],
           None)"
  by (simp add: ev_lib ev_go)

text \<open>
  With the whitespace out of the way, \<open>parseModes\<close> of \<open>src/unnamed/part_000\<close> reads the line
  of the claim as the claim says.
\<close>

lemma parseModes_p0_line_without_whitespace:
  "map_option (\<lambda>(p, output, err). (Modes output, err))
     (parseModes_p0 (Suc (Suc (Suc (Suc n))))
        (startOn_p0 [W ''   '', N ''1920x1080i'', F ''60.00'', P ''*'', P ''+'', F ''59.94'', LT])
        newOutput)
   = Some ([\<lparr>ModeResolution = \<lparr>Width = 1920, Height = 1080\<rparr>,
             Rates = [\<lparr>Rate = (6000, 2), IsCurrent = True, IsPreferred = True\<rparr>,
                      \<lparr>Rate = (5994, 2), IsCurrent = False, IsPreferred = False\<rparr>]\<rparr>],
           None)"
  by (simp add: ev_lib ev_p0)

text \<open>
  \<open>parseProperties\<close> of \<open>src/unnamed/part_000\<close> fails in every state: without a tab as the
  current token its first check fails, and with one \<open>parseProperty\<close> asks for a name while
  the tab, which \<open>expect\<close> has not read past, is still the current token.
\<close>

lemma parseProperties_p0_fails:
  "\<exists>p' outp' e. parseProperties_p0 (Suc n) p outp = Some (p', outp', Some e)"
  by (auto simp: parseProperties_p0_def parseProperty_p0_def expect_p0_def next_p0_def
                 consume_def unexpected_def Let_def)

text \<open>
  Claim C6.  Every output block without mode and property lines should parse to one output
  with \<open>IsConnected\<close> as the status says.  In \<open>src/xrandr/parser.go\<close> the block with a name,
  a status word and the legend parses to one output, but \<open>IsConnected\<close> is false whatever
  the status word is, also for \<open>connected\<close>: \<open>parseOutputStatus\<close> scans past the word before
  it compares.  In \<open>src/unnamed/part_000\<close> the report fails in the screen header, and
  \<open>parseProperties\<close> fails in every state.
\<close>

theorem C6_block_without_properties_fails:
  "ParseProps (Suc (Suc n)) NewParser
     (tokens (screenHeader @ [N name, SP, N status, SP] @ legend @ [LT]))
     = Some (\<lparr>Outputs = [newOutput\<lparr>Name := name, IsConnected := False\<rparr>]\<rparr>, None)
   \<and> ParseProps (Suc (Suc n)) NewParser (tokens (screenHeader @ hdmiBlock))
     = Some (\<lparr>Outputs = [newOutput\<lparr>Name := ''HDMI-1'', IsConnected := False\<rparr>]\<rparr>, None)
   \<and> ParseProps_p0 m NewParser (tokens (screenHeader @ hdmiBlock))
     = Some (\<lparr>Outputs = []\<rparr>,
             Some (Unexpected \<lparr>Type = TokenTypeName, Literal = ''Screen'', Line = 1, Column = 1\<rparr>
                     TokenTypeIntValue [''N/A'']))
   \<and> (\<exists>p' outp' e. parseProperties_p0 (Suc k) p outp = Some (p', outp', Some e))"
proof (intro conjI)
  show "ParseProps (Suc (Suc n)) NewParser
     (tokens (screenHeader @ [N name, SP, N status, SP] @ legend @ [LT]))
     = Some (\<lparr>Outputs = [newOutput\<lparr>Name := name, IsConnected := False\<rparr>]\<rparr>, None)"
    by (simp add: ev_lib ev_go)
  show "ParseProps (Suc (Suc n)) NewParser (tokens (screenHeader @ hdmiBlock))
     = Some (\<lparr>Outputs = [newOutput\<lparr>Name := ''HDMI-1'', IsConnected := False\<rparr>]\<rparr>, None)"
    by (simp add: ev_lib ev_go)
  show "ParseProps_p0 m NewParser (tokens (screenHeader @ hdmiBlock))
     = Some (\<lparr>Outputs = []\<rparr>,
             Some (Unexpected \<lparr>Type = TokenTypeName, Literal = ''Screen'', Line = 1, Column = 1\<rparr>
                     TokenTypeIntValue [''N/A'']))"
    by (simp add: ev_lib ev_p0)
  show "\<exists>p' outp' e. parseProperties_p0 (Suc k) p outp = Some (p', outp', Some e)"
    by (rule parseProperties_p0_fails)
qed

text \<open>
  Claim C7.  With the skip mode on, \<open>scan\<close> should never leave a whitespace token as the
  current one.  \<open>scan\<close> of \<open>src/unnamed/part_000\<close> does not read \<open>skipWS\<close>: after the name
  \<open>eDP-1\<close> the current token is the space, with \<open>skipWS\<close> set.
\<close>

theorem C7_scan_keeps_whitespace_token:
  "skipWS (startOn_p0 [N ''eDP-1'', SP, N ''connected''])
   \<and> Type (token (scan_p0 (startOn_p0 [N ''eDP-1'', SP, N ''connected'']))) = TokenTypeWhiteSpace
   \<and> skipWS (scan_p0 (startOn_p0 [N ''eDP-1'', SP, N ''connected'']))
   \<and> (case parseOutputName_p0 (startOn_p0 [N ''eDP-1'', SP, N ''connected'']) newOutput of
         (p, output, err) \<Rightarrow>
           skipWS p \<and> err = None \<and> Type (token p) = TokenTypeWhiteSpace \<and> Literal (token p) = '' '')"
  by (simp add: ev_lib ev_p0)

text \<open>\<open>scan\<close> of \<open>src/xrandr/parser.go\<close> does what the claim says.\<close>

lemma scan_skips_whitespace:
  "scan p = (p', None) \<Longrightarrow> skipWS p \<Longrightarrow> Type (token p') \<noteq> TokenTypeWhiteSpace"
proof (induction p rule: scan.induct)
  case (1 p)
  then show ?case
    by (subst (asm) (2) scan.simps) (auto simp: Let_def split: prod.splits if_splits)
qed

lemma scan_keeps_whitespace:
  "\<not> skipWS p \<Longrightarrow>
     scan p = (p\<lparr>token := fst (fst (Scan (lexer p))), lexer := snd (Scan (lexer p))\<rparr>,
               snd (fst (Scan (lexer p))))"
  by (subst scan.simps) (auto simp: Let_def split: prod.splits)

text \<open>
  \<open>parseProperty\<close> of \<open>src/unnamed/part_000\<close> never stores a property: after the name it
  asks for a colon and for a space with \<open>expect\<close>, which does not move on, so the same token
  would have to be both.  It returns an error, or it does not return (the loop over the name
  has no end at the end of the input).
\<close>

lemma nameLoop_p0_colon:
  "nameLoop_p0 n p name = Some (p', name') \<Longrightarrow> Type (token p') = TokenTypePunctuator"
  by (induction n arbitrary: p name) (auto split: if_splits)

lemma parseProperty_p0_fails:
  "parseProperty_p0 n p outp = None
   \<or> (\<exists>p' outp' stop e. parseProperty_p0 n p outp = Some (p', outp', stop, Some e))"
proof -
  obtain p1 tok e1 where c: "consume TokenTypeName [] p = (p1, tok, e1)"
    by (metis prod.exhaust)
  show ?thesis
  proof (cases "e1 = None")
    case False
    then show ?thesis using c by (auto simp: parseProperty_p0_def)
  next
    case True
    show ?thesis
    proof (cases "nameLoop_p0 n p1 (Literal tok)")
      case None
      then show ?thesis using c True by (simp add: parseProperty_p0_def)
    next
      case (Some r)
      obtain p2 name where r: "r = (p2, name)" by (metis prod.exhaust)
      have "Type (token p2) = TokenTypePunctuator"
        using Some r nameLoop_p0_colon by blast
      then have "expectAll [expect_p0 TokenTypePunctuator ['':''],
                            expect_p0 TokenTypeWhiteSpace ['' '']] p2 \<noteq> None"
        by (simp add: expect_p0_def next_p0_def split: option.splits)
      then show ?thesis
        using c True Some r by (auto simp: parseProperty_p0_def split: option.splits)
    qed
  qed
qed

text \<open>
  \<open>parseProperty\<close> of \<open>src/xrandr/parser.go\<close>, entered at the name of a property with the
  skipping of whitespace off, does what the claim says.  A value on the line of the colon is
  kept, trimmed, and the continuation line after it is read and dropped; the tab before the
  name of the next property is read as well, and that name is left as the current token.  A
  value that starts after the line terminator is made of the continuation lines.
\<close>

lemma parseProperty_inline_value:
  "map_option (\<lambda>(p, outp, err). (Properties outp, Literal (token p), err))
     (parseProperty (Suc (Suc (Suc (Suc (Suc (Suc (Suc (Suc (Suc (Suc n))))))))))
        (startOn False (tl inlineProperty @ continuedProperty)) newOutput)
   = Some ([(''Broadcast RGB'', ''Automatic'')], ''EDID'', None)"
  by (simp add: ev_lib ev_go)

lemma parseProperty_continued_value:
  "map_option (\<lambda>(p, outp, err). (Properties outp, Literal (token p), err))
     (parseProperty (Suc (Suc (Suc (Suc (Suc (Suc (Suc (Suc (Suc (Suc n))))))))))
        (startOn False (tl continuedProperty @ [N ''HDMI-2''])) newOutput)
   = Some ([(''EDID'', ''00ffffffffffff004d10cc1400000000'')], ''HDMI-2'', None)"
  by (simp add: ev_lib ev_go)

text \<open>
  Claim C8.  A value that starts on the line of the colon should be stored trimmed, without
  its continuation lines, and a value that starts after a line terminator with them.  Neither
  parser stores a property of the report with the block \<open>HDMI-1 connected (...)\<close> and the
  lines of \<open>Broadcast RGB\<close> and \<open>EDID\<close>.  In \<open>src/xrandr/parser.go\<close> the tab at the head of
  the first property line is skipped as whitespace, \<open>parseProperties\<close> returns at the name
  \<open>Broadcast\<close>, the output is completed with no property, and the property line is then
  read as the next output and fails.  In \<open>src/unnamed/part_000\<close> the report fails in the
  screen header, and \<open>parseProperty\<close> returns an error wherever it is entered, at the name
  \<open>Broadcast\<close> with the colon as the current token.
\<close>

theorem C8_property_lines_fail:
  "ParseProps (Suc (Suc (Suc n))) NewParser (tokens (screenHeader @ propertyBlock))
     = Some (\<lparr>Outputs = [newOutput\<lparr>Name := ''HDMI-1'', Properties := []\<rparr>]\<rparr>,
             Some (ErrorParsing ''output rotation and reflection key''
                     (UnexpectedLiteral ''('' TokenTypePunctuator 3 15)))
   \<and> ParseProps_p0 m NewParser (tokens (screenHeader @ propertyBlock))
     = Some (\<lparr>Outputs = []\<rparr>,
             Some (Unexpected \<lparr>Type = TokenTypeName, Literal = ''Screen'', Line = 1, Column = 1\<rparr>
                     TokenTypeIntValue [''N/A'']))
   \<and> (parseProperty_p0 k p outp = None
        \<or> (\<exists>p' outp' stop e. parseProperty_p0 k p outp = Some (p', outp', stop, Some e)))
   \<and> map_option (\<lambda>(p, outp, stop, err). (Properties outp, err))
        (parseProperty_p0 (Suc (Suc (Suc (Suc j)))) (startOn_p0 (tl inlineProperty)) newOutput)
      = Some ([], Some (Unexpected
                          \<lparr>Type = TokenTypePunctuator, Literal = '':'', Line = 1, Column = 14\<rparr>
                          TokenTypeWhiteSpace ['' '']))"
proof (intro conjI)
  show "ParseProps (Suc (Suc (Suc n))) NewParser (tokens (screenHeader @ propertyBlock))
     = Some (\<lparr>Outputs = [newOutput\<lparr>Name := ''HDMI-1'', Properties := []\<rparr>]\<rparr>,
             Some (ErrorParsing ''output rotation and reflection key''
                     (UnexpectedLiteral ''('' TokenTypePunctuator 3 15)))"
    by (simp add: ev_lib ev_go)
  show "ParseProps_p0 m NewParser (tokens (screenHeader @ propertyBlock))
     = Some (\<lparr>Outputs = []\<rparr>,
             Some (Unexpected \<lparr>Type = TokenTypeName, Literal = ''Screen'', Line = 1, Column = 1\<rparr>
                     TokenTypeIntValue [''N/A'']))"
    by (simp add: ev_lib ev_p0)
  show "parseProperty_p0 k p outp = None
        \<or> (\<exists>p' outp' stop e. parseProperty_p0 k p outp = Some (p', outp', stop, Some e))"
    by (rule parseProperty_p0_fails)
  show "map_option (\<lambda>(p, outp, stop, err). (Properties outp, err))
        (parseProperty_p0 (Suc (Suc (Suc (Suc j)))) (startOn_p0 (tl inlineProperty)) newOutput)
      = Some ([], Some (Unexpected
                          \<lparr>Type = TokenTypePunctuator, Literal = '':'', Line = 1, Column = 14\<rparr>
                          TokenTypeWhiteSpace ['' '']))"
    by (simp add: ev_lib ev_p0 unexpected_def)
qed

text \<open>
  Claim C9.  The hash is a function of the names and \<open>EDID\<close> values of the connected outputs,
  in their order: two lists that agree on them have the same hash.
\<close>

lemma written_concat:
  "written xs = concat (map (\<lambda>output. Name output @ lookupProperty (Properties output) ''EDID'')
                          (filter IsConnected xs))"
  by (induction xs) simp_all

theorem C9_hash_of_connected_names_and_edids:
  assumes "map (\<lambda>output. (Name output, lookupProperty (Properties output) ''EDID'')) (filter IsConnected xs)
         = map (\<lambda>output. (Name output, lookupProperty (Properties output) ''EDID'')) (filter IsConnected ys)"
  shows "calculateHashForOutputs md5hex xs = calculateHashForOutputs md5hex ys"
proof -
  have "map (\<lambda>(a, b). a @ b) (map (\<lambda>output. (Name output, lookupProperty (Properties output) ''EDID'')) (filter IsConnected xs))
      = map (\<lambda>(a, b). a @ b) (map (\<lambda>output. (Name output, lookupProperty (Properties output) ''EDID'')) (filter IsConnected ys))"
    using assms by simp
  then have "written xs = written ys"
    by (simp add: written_concat comp_def)
  then show ?thesis by (simp add: calculateHashForOutputs_def)
qed

theorem C9_witness:
  "map (\<lambda>output. (Name output, lookupProperty (Properties output) ''EDID''))
     (filter IsConnected
        [newOutput\<lparr>Name := ''eDP-1'', IsConnected := True,
                    Properties := [(''EDID'', ''00ffffffffffff00''), (''Brightness'', ''1.0'')]\<rparr>,
         newOutput\<lparr>Name := ''HDMI-1''\<rparr>])
   = map (\<lambda>output. (Name output, lookupProperty (Properties output) ''EDID''))
     (filter IsConnected
        [newOutput\<lparr>Name := ''DP-2'', Properties := [(''EDID'', ''1234'')]\<rparr>,
         newOutput\<lparr>Name := ''eDP-1'', IsConnected := True, IsPrimary := True,
                    Properties := [(''Brightness'', ''0.5''), (''EDID'', ''00ffffffffffff00'')]\<rparr>])
   \<and> calculateHashForOutputs (\<lambda>s. s)
        [newOutput\<lparr>Name := ''eDP-1'', IsConnected := True,
                    Properties := [(''EDID'', ''00ffffffffffff00''), (''Brightness'', ''1.0'')]\<rparr>,
         newOutput\<lparr>Name := ''HDMI-1''\<rparr>]
     = calculateHashForOutputs (\<lambda>s. s)
        [newOutput\<lparr>Name := ''DP-2'', Properties := [(''EDID'', ''1234'')]\<rparr>,
         newOutput\<lparr>Name := ''eDP-1'', IsConnected := True, IsPrimary := True,
                    Properties := [(''Brightness'', ''0.5''), (''EDID'', ''00ffffffffffff00'')]\<rparr>]"
proof -
  have h: "map (\<lambda>output. (Name output, lookupProperty (Properties output) ''EDID''))
     (filter IsConnected
        [newOutput\<lparr>Name := ''eDP-1'', IsConnected := True,
                    Properties := [(''EDID'', ''00ffffffffffff00''), (''Brightness'', ''1.0'')]\<rparr>,
         newOutput\<lparr>Name := ''HDMI-1''\<rparr>])
   = map (\<lambda>output. (Name output, lookupProperty (Properties output) ''EDID''))
     (filter IsConnected
        [newOutput\<lparr>Name := ''DP-2'', Properties := [(''EDID'', ''1234'')]\<rparr>,
         newOutput\<lparr>Name := ''eDP-1'', IsConnected := True, IsPrimary := True,
                    Properties := [(''Brightness'', ''0.5''), (''EDID'', ''00ffffffffffff00'')]\<rparr>])"
    by (simp add: newOutput_def lookupProperty_def)
  show ?thesis
    using h C9_hash_of_connected_names_and_edids [OF h, of "\<lambda>s. s"] by blast
qed


lemma scan_parserOK: "scan p = (p', e) \<Longrightarrow> parserOK p \<Longrightarrow> parserOK p'"
proof (induction p arbitrary: p' e rule: scan.induct)
  case (1 p)
  obtain tok err lx where s: "Scan (lexer p) = ((tok, err), lx)"
    by (metis prod.exhaust)
  let ?q = "p\<lparr>token := tok, lexer := lx\<rparr>"
  have q: "parserOK ?q"
    using s "1.prems"(2)
    by (auto simp: Scan_def parserOK_def unsignedInts_def unsignedInt_def eofToken_def
                   list_all_iff
             split: list.splits)
  show ?case
  proof (cases "err = None \<and> skipWS ?q \<and> Type (token ?q) = TokenTypeWhiteSpace")
    case True
    then have "scan p = scan ?q"
      using s by (subst scan.simps) (simp add: Let_def)
    then have "scan ?q = (p', e)"
      using "1.prems"(1) by simp
    then show ?thesis
      using "1.IH" [OF s [symmetric] refl refl _ _ _ q] True by blast
  next
    case False
    then have "scan p = (?q, err)"
      using s by (subst scan.simps) (auto simp: Let_def)
    then show ?thesis using q "1.prems"(1) by simp
  qed
qed




lemma match_parserOK: "match t p = (p', m, e) \<Longrightarrow> parserOK p \<Longrightarrow> parserOK p'"
  by (auto simp: match_def split: if_splits prod.splits dest: scan_parserOK)


lemma skip_parserOK: "skip t p = (p', e) \<Longrightarrow> parserOK p \<Longrightarrow> parserOK p'"
  by (auto simp: skip_def Let_def split: if_splits prod.splits dest: match_parserOK)

lemma skipWithLiteral_parserOK: "skipWithLiteral t l p = (p', e) \<Longrightarrow> parserOK p \<Longrightarrow> parserOK p'"
  by (auto simp: skipWithLiteral_def Let_def split: if_splits prod.splits dest: skip_parserOK)

lemma keepsOK_skip [simp]: "keepsOK (skip t)"
  by (auto simp: keepsOK_def dest: skip_parserOK)

lemma keepsOK_skipWithLiteral [simp]: "keepsOK (skipWithLiteral t l)"
  by (auto simp: keepsOK_def dest: skipWithLiteral_parserOK)



































text \<open>
  A position that has been read followed the grammar \<open>+ int + int\<close>; a token other than \<open>+\<close>
  in the place of a sign is an error.
\<close>

lemma skipWithLiteral_None:
  "skipWithLiteral t l p = (p', None) \<Longrightarrow>
     Type (token p) = t \<and> Literal (token p) = l \<and> scan p = (p', None)"
  by (auto simp: skipWithLiteral_def skip_def match_def Let_def split: prod.splits if_splits)

lemma expect_None:
  "expect t p = (p', tok, None) \<Longrightarrow> Type (token p) = t \<and> tok = token p \<and> scan p = (p', None)"
  by (auto simp: expect_def match_def Let_def split: prod.splits if_splits)

lemma position_grammar:
  assumes "parseResolutionAndPosition p outp = (p', outp', None)"
    and "Type (token p) = TokenTypeName" "fst (parseResolution (Literal (token p)))"
  shows "\<exists>p1 p2 p3 p4.
           scan (p\<lparr>skipWS := True\<rparr>) = (p1, None)
           \<and> Type (token p1) = TokenTypePunctuator \<and> Literal (token p1) = ''+''
           \<and> scan p1 = (p2, None)
           \<and> Type (token p2) = TokenTypeIntValue
           \<and> ParseInt (Literal (token p2)) = Inr (OffsetX (Position outp'))
           \<and> scan p2 = (p3, None)
           \<and> Type (token p3) = TokenTypePunctuator \<and> Literal (token p3) = ''+''
           \<and> scan p3 = (p4, None)
           \<and> Type (token p4) = TokenTypeIntValue
           \<and> ParseInt (Literal (token p4)) = Inr (OffsetY (Position outp'))
           \<and> scan p4 = (p', None)"
proof -
  let ?q = "p\<lparr>skipWS := True\<rparr>"
  obtain res where res: "parseResolution (Literal (token ?q)) = (True, res)"
    using assms(3) by (cases "parseResolution (Literal (token p))") auto
  from assms(1,2) res obtain p1 p2 p3 tokX offsetX p5 tokY offsetY where
    s1: "scan ?q = (p1, None)" and s2: "skipWithLiteral TokenTypePunctuator ''+'' p1 = (p2, None)"
    and s3: "expect TokenTypeIntValue p2 = (p3, tokX, None)" and ix: "ParseInt (Literal tokX) = Inr offsetX"
    and s5: "skipWithLiteral TokenTypePunctuator ''+'' p3 = (p5, None)"
    and s6: "expect TokenTypeIntValue p5 = (p', tokY, None)" and iy: "ParseInt (Literal tokY) = Inr offsetY"
    and out: "outp' = outp\<lparr>IsEnabled := True, Resolution := res,
                               Position := \<lparr>OffsetX = offsetX, OffsetY = offsetY\<rparr>\<rparr>"
    by (auto simp: parseResolutionAndPosition_def Let_def split: prod.splits sum.splits if_splits)
  show ?thesis
    using s1 skipWithLiteral_None [OF s2] expect_None [OF s3] ix
          skipWithLiteral_None [OF s5] expect_None [OF s6] iy out
    by auto
qed

lemma position_sign_required:
  assumes "Type (token p) = TokenTypeName" "fst (parseResolution (Literal (token p)))"
    and "scan (p\<lparr>skipWS := True\<rparr>) = (p1, e1)" "Literal (token p1) \<noteq> ''+''"
  shows "\<exists>p' outp' e. parseResolutionAndPosition p outp = (p', outp', Some e)"
proof -
  obtain p' outp' r where r: "parseResolutionAndPosition p outp = (p', outp', r)"
    by (metis prod.exhaust)
  have "r \<noteq> None"
  proof
    assume "r = None"
    with r position_grammar [of p outp p' outp'] assms show False by auto
  qed
  with r show ?thesis by auto
qed

lemma parseResolutionAndPosition_p0_Position:
  "parseResolutionAndPosition_p0 p outp = (p', outp', None) \<Longrightarrow> Position outp' = Position outp"
  by (auto simp: parseResolutionAndPosition_p0_def expect_p0_def next_p0_def consume_def Let_def
           split: prod.splits if_splits option.splits)

lemma negative_offset_fails:
  "ParseProps (Suc (Suc (Suc n))) NewParser (tokens (screenHeader @ positionBlock ''-'' ''+''))
     = Some (\<lparr>Outputs = []\<rparr>,
             Some (ErrorParsing ''output resolution and position''
                     (UnexpectedLiteral ''+'' TokenTypePunctuator 2 34)))
   \<and> ParseProps (Suc (Suc (Suc n))) NewParser (tokens (screenHeader @ positionBlock ''+'' ''-''))
     = Some (\<lparr>Outputs = []\<rparr>,
             Some (ErrorParsing ''output resolution and position''
                     (UnexpectedLiteral ''+'' TokenTypePunctuator 2 39)))"
  by (simp add: ev_lib ev_go)



end
